theory Spec2Isabelle
  imports Main
begin

section \<open>JavaScript values used by tsickle.ts\<close>

text \<open>
  Strings are lists of code units; this development covers code units below 256, so a
  \<^typ>\<open>char\<close> is one code unit.
\<close>

text \<open>\<open>if (s)\<close> on a value that is a string or \<open>undefined\<close>/\<open>null\<close>.\<close>

fun truthy :: "string option \<Rightarrow> bool" where
  "truthy None = False"
| "truthy (Some s) = (s \<noteq> [])"

text \<open>String conversion of a possibly undefined string inside a template or \<open>+\<close>.\<close>

fun js_string :: "string option \<Rightarrow> string" where
  "js_string None = ''undefined''"
| "js_string (Some s) = s"

text \<open>\<open>Array.prototype.join\<close>.\<close>

fun join :: "string \<Rightarrow> string list \<Rightarrow> string" where
  "join sep [] = []"
| "join sep [x] = x"
| "join sep (x # y # ys) = x @ sep @ join sep (y # ys)"

text \<open>
  The string of a counter that counts the statements of one file, as a template literal
  prints it: its decimal digits (the counter stays far below \<open>10^21\<close>).
\<close>

fun nat_toString :: "nat \<Rightarrow> string" where
  "nat_toString n =
     (if n < 10 then [''0123456789'' ! n]
      else nat_toString (n div 10) @ [''0123456789'' ! (n mod 10)])"

declare nat_toString.simps [simp del]

subsection \<open>Numbers\<close>

text \<open>
  JavaScript's numbers are doubles. The development does not fix them: the type \<open>'n\<close> of
  numbers and the three operations the source uses on them are parameters: the number
  \<open>0\<close>, the sum \<open>x + 1\<close> (also \<open>x++\<close>) and \<open>Number.prototype.toString\<close>.
\<close>

record 'n numbers =
  numZero :: 'n
  plusOne :: "'n \<Rightarrow> 'n"
  numberToString :: "'n \<Rightarrow> string"

text \<open>
  The doubles that are natural numbers up to \<open>2^53\<close> are closed under \<open>x + 1\<close>: the sum is
  exact below \<open>2^53\<close>, and \<open>2^53 + 1\<close> rounds to \<open>2^53\<close>. \<open>toString\<close> prints such a number
  with its decimal digits. The examples compute with these numbers.
\<close>

definition safeNaturals :: "nat numbers" where
  "safeNaturals =
     \<lparr>numZero = 0,
      plusOne = (\<lambda>x. if x < 2 ^ 53 then x + 1 else x),
      numberToString = nat_toString\<rparr>"

subsection \<open>Exceptions\<close>

text \<open>
  A call of a value that is not a function raises a \<open>TypeError\<close>, and so does a property
  read on \<open>undefined\<close>. A method that may raise returns an outcome: its result and the
  state of the object on return, or the exception and the state of the object at the
  moment it is thrown (the object has been mutated up to there).
\<close>

datatype exception = TypeError

datatype ('a, 's) outcome = Returned 'a 's | Threw exception 's

fun stateOf :: "('a, 's) outcome \<Rightarrow> 's" where
  "stateOf (Returned a s) = s"
| "stateOf (Threw e s) = s"

fun returnedValue :: "('a, 's) outcome \<Rightarrow> 'a option" where
  "returnedValue (Returned a s) = Some a"
| "returnedValue (Threw e s) = None"

text \<open>Sequencing: the second step runs only if the first returns.\<close>

fun andThen :: "('a, 's) outcome \<Rightarrow> ('a \<Rightarrow> 's \<Rightarrow> ('b, 's) outcome) \<Rightarrow> ('b, 's) outcome" where
  "andThen (Returned a s) f = f a s"
| "andThen (Threw e s) f = Threw e s"

text \<open>A loop \<open>for (let x of xs) f(x)\<close> whose body may raise.\<close>

fun forEach :: "('x \<Rightarrow> 's \<Rightarrow> (unit, 's) outcome) \<Rightarrow> 'x list \<Rightarrow> 's \<Rightarrow> (unit, 's) outcome" where
  "forEach f [] s = Returned () s"
| "forEach f (x # xs) s =
     (case f x s of
        Returned u s' \<Rightarrow> forEach f xs s'
      | Threw e s' \<Rightarrow> Threw e s')"

subsection \<open>Plain objects used as dictionaries\<close>

text \<open>
  An object literal \<open>{}\<close> that is written with \<open>o[k] = v\<close>, tested with
  \<open>o.hasOwnProperty(k)\<close> and listed with \<open>Object.keys(o)\<close>. Its own properties are an
  association list in insertion order: assigning to an existing key keeps its place.
  The object inherits from \<open>Object.prototype\<close>:
  \<^item> an assignment to the key \<open>__proto__\<close> runs the inherited setter and creates no own
    property, whatever the value;
  \<^item> \<open>o.hasOwnProperty\<close> is the inherited method unless the object has an own property of
    that name; the values stored here are strings, numbers, booleans and syntax nodes, so
    with such an own property the call \<open>o.hasOwnProperty(k)\<close> raises a \<open>TypeError\<close>.
  \<open>Object.keys\<close> lists the own keys that are canonical array indices first, in ascending
  numeric order, and the other own keys in insertion order. \<open>obj_get\<close> is the read \<open>o[k]\<close>
  of an own property.
\<close>

type_synonym 'v js_object = "(string \<times> 'v) list"

fun store :: "'v js_object \<Rightarrow> string \<Rightarrow> 'v \<Rightarrow> 'v js_object" where
  "store [] k v = [(k, v)]"
| "store ((k', v') # kvs) k v =
     (if k' = k then (k, v) # kvs else (k', v') # store kvs k v)"

definition obj_set :: "'v js_object \<Rightarrow> string \<Rightarrow> 'v \<Rightarrow> 'v js_object" where
  "obj_set obj k v = (if k = ''__proto__'' then obj else store obj k v)"

definition ownKeys :: "'v js_object \<Rightarrow> string set" where
  "ownKeys obj = fst ` set obj"

definition hasOwnProperty :: "'v js_object \<Rightarrow> string \<Rightarrow> exception + bool" where
  "hasOwnProperty obj k =
     (if ''hasOwnProperty'' \<in> ownKeys obj then Inl TypeError else Inr (k \<in> ownKeys obj))"

definition obj_get :: "'v js_object \<Rightarrow> string \<Rightarrow> 'v option" where
  "obj_get obj k = map_of obj k"

definition is_digit :: "char \<Rightarrow> bool" where
  "is_digit c = (c \<in> set ''0123456789'')"

fun digits_value :: "nat \<Rightarrow> string \<Rightarrow> nat" where
  "digits_value acc [] = acc"
| "digits_value acc (c # cs) = digits_value (10 * acc + (of_char c - 48)) cs"

definition is_array_index :: "string \<Rightarrow> bool" where
  "is_array_index k =
     (k \<noteq> [] \<and> list_all is_digit k \<and> (if hd k = CHR ''0'' then k = ''0'' else True)
      \<and> digits_value 0 k < 2 ^ 32 - 1)"

definition object_keys :: "'v js_object \<Rightarrow> string list" where
  "object_keys obj =
     sort_key (digits_value 0) (filter is_array_index (map fst obj))
     @ filter (\<lambda>k. \<not> is_array_index k) (map fst obj)"

section \<open>The module-rewrite pass: class PostProcessor\<close>

subsection \<open>The syntax tree of the compiled JavaScript\<close>

datatype expression =
    StringLiteral string
  | Identifier string
  | CallExpression expression "expression list"
  | OtherExpression

datatype bindingName = IdentifierName string | BindingPattern

datatype variableDeclaration = VariableDeclaration bindingName "expression option"

datatype statementKind =
    ExpressionStatement expression
  | VariableStatement "variableDeclaration list"
  | OtherStatement

text \<open>
  What the generic traversal of the rewrite engine reads in a statement: its text from
  \<open>getStart()\<close> to \<open>getEnd()\<close>, cut at each property access \<open>x.default\<close> on an identifier
  (the one node kind \<open>PostProcessor.maybeProcess\<close> intercepts). A \<open>DefaultAccess\<close> holds the
  leading trivia of the access, the identifier's text and the original text after the
  trivia.
\<close>

datatype piece = SourceText string | DefaultAccess string string string

record statement =
  leadingTrivia :: string
  kind :: statementKind
  pieces :: "piece list"

record sourceFile =
  fileName :: string
  statements :: "statement list"
  endOfFileText :: string

record PostProcessor =
  outputBuf :: "string list"
  namespaceImports :: "bool js_object"
  moduleVariables :: "string js_object"
  strippedStrict :: bool
  unusedIndex :: nat

definition newPostProcessor :: PostProcessor where
  "newPostProcessor =
     \<lparr>outputBuf = [], namespaceImports = [], moduleVariables = [],
      strippedStrict = False, unusedIndex = 0\<rparr>"

subsection \<open>The rewrite engine's primitives\<close>

text \<open>
  Modelled from the spec: class \<open>Rewriter\<close> (rewriter.ts) is not among the sources. Per the
  spec it offers "emit synthesized text", "copy source bytes [a,b) to output" and a
  traversal that copies a node's full range unchanged unless the per-node hook intercepts.
  \<open>emit\<close> appends a chunk to the output array (\<open>annotate\<close> joins \<open>externsOutput\<close>, an array of
  chunks); \<open>writeText\<close> is \<open>writeRange\<close> on a range whose text is given, and emits nothing
  for an empty range.
\<close>

definition emit :: "string \<Rightarrow> PostProcessor \<Rightarrow> PostProcessor" where
  "emit str s = s\<lparr>outputBuf := outputBuf s @ [str]\<rparr>"

definition writeText :: "string \<Rightarrow> PostProcessor \<Rightarrow> PostProcessor" where
  "writeText txt s = (if txt = [] then s else emit txt s)"

text \<open>
  \<open>PostProcessor.maybeProcess\<close> on a property access \<open>lhs.default\<close>, and the verbatim copy
  otherwise. The test \<open>this.namespaceImports.hasOwnProperty(lhs)\<close> comes before anything is
  written for the access.
\<close>

fun visitPiece :: "piece \<Rightarrow> PostProcessor \<Rightarrow> (unit, PostProcessor) outcome" where
  "visitPiece (SourceText txt) s = Returned () (writeText txt s)"
| "visitPiece (DefaultAccess trivia lhs original) s =
     (case hasOwnProperty (namespaceImports s) lhs of
        Inl e \<Rightarrow> Threw e s
      | Inr True \<Rightarrow> Returned () (emit (lhs @ ''        '') (writeText trivia s))
      | Inr False \<Rightarrow> Returned () (writeText original (writeText trivia s)))"

definition visit :: "statement \<Rightarrow> PostProcessor \<Rightarrow> (unit, PostProcessor) outcome" where
  "visit node s = forEach visitPiece (pieces node) (writeText (leadingTrivia node) s)"

subsection \<open>isUseStrict, isRequire, isExportRequire\<close>

fun isUseStrict :: "statement \<Rightarrow> bool" where
  "isUseStrict node =
     (case kind node of
        ExpressionStatement (StringLiteral txt) \<Rightarrow> txt = ''use strict''
      | _ \<Rightarrow> False)"

fun isRequire :: "expression \<Rightarrow> string option" where
  "isRequire (CallExpression (Identifier ident) [StringLiteral txt]) =
     (if ident \<noteq> ''require'' then None else Some txt)"
| "isRequire _ = None"

fun isExportRequire :: "expression \<Rightarrow> string option" where
  "isExportRequire (CallExpression (Identifier ident) [CallExpression f args]) =
     (if ident \<noteq> ''__export'' then None else isRequire (CallExpression f args))"
| "isExportRequire _ = None"

subsection \<open>emitRewrittenRequires\<close>

text \<open>
  The tail of \<open>emitRewrittenRequires\<close>, from \<open>let require = this.isRequire(call)\<close> on:
  \<open>varName\<close> is \<open>None\<close> for an expression statement.
\<close>

definition rewriteRequire ::
  "(string \<Rightarrow> string \<Rightarrow> string) \<Rightarrow> string \<Rightarrow> statement \<Rightarrow> string option \<Rightarrow> expression
     \<Rightarrow> PostProcessor \<Rightarrow> (bool, PostProcessor) outcome" where
  "rewriteRequire pathToModuleName file node varName0 call s =
     (let require = isRequire call in
      if \<not> truthy require then Returned False s
      else
        let req = the require;
            (varName, s1) =
              (if \<not> truthy varName0
               then (''unused_'' @ nat_toString (unusedIndex s) @ ''_'',
                     s\<lparr>unusedIndex := unusedIndex s + 1\<rparr>)
               else (the varName0, s));
            (modName, s2) =
              (if take 5 req = ''goog:''
               then (drop 5 req,
                     s1\<lparr>namespaceImports := obj_set (namespaceImports s1) varName True\<rparr>)
               else (pathToModuleName file req, s1));
            s3 = writeText (leadingTrivia node) s2
        in case hasOwnProperty (moduleVariables s3) modName of
             Inl e \<Rightarrow> Threw e s3
           | Inr True \<Rightarrow>
               Returned True
                 (emit (''var '' @ varName @ '' = ''
                        @ js_string (obj_get (moduleVariables s3) modName) @ '';'') s3)
           | Inr False \<Rightarrow>
               Returned True
                 ((emit (''var '' @ varName @ '' = goog.require('' @ [CHR 0x27] @ modName
                         @ [CHR 0x27] @ '');'') s3)
                  \<lparr>moduleVariables := obj_set (moduleVariables s3) modName varName\<rparr>))"

definition emitRewrittenRequires ::
  "(string \<Rightarrow> string \<Rightarrow> string) \<Rightarrow> string \<Rightarrow> statement \<Rightarrow> PostProcessor
     \<Rightarrow> (bool, PostProcessor) outcome" where
  "emitRewrittenRequires pathToModuleName file node s =
     (case kind node of
        VariableStatement decls \<Rightarrow>
          (case decls of
             [VariableDeclaration (IdentifierName varName) (Some (CallExpression f args))] \<Rightarrow>
               rewriteRequire pathToModuleName file node (Some varName) (CallExpression f args) s
           | _ \<Rightarrow> Returned False s)
      | ExpressionStatement expr \<Rightarrow>
          (case expr of
             CallExpression f args \<Rightarrow>
               (let require = isExportRequire expr in
                if truthy require
                then
                  (let modName = pathToModuleName file (the require);
                       s1 = writeText (leadingTrivia node) s;
                       s2 = emit (''__export(goog.require('' @ [CHR 0x27] @ modName
                                  @ [CHR 0x27] @ ''));'') s1
                   in Returned True
                        (s2\<lparr>moduleVariables := obj_set (moduleVariables s2) modName ''*''\<rparr>))
                else rewriteRequire pathToModuleName file node None expr s)
           | _ \<Rightarrow> Returned False s)
      | OtherStatement \<Rightarrow> Returned False s)"

subsection \<open>visitTopLevel and process\<close>

text \<open>The end of \<open>visitTopLevel\<close>: \<open>if (this.emitRewrittenRequires(node)) return;\<close> and then
  \<open>this.visit(node)\<close>.\<close>

definition rewriteOrVisit ::
  "(string \<Rightarrow> string \<Rightarrow> string) \<Rightarrow> string \<Rightarrow> statement \<Rightarrow> PostProcessor
     \<Rightarrow> (unit, PostProcessor) outcome" where
  "rewriteOrVisit pathToModuleName file node s =
     (case emitRewrittenRequires pathToModuleName file node s of
        Returned True s' \<Rightarrow> Returned () s'
      | Returned False s' \<Rightarrow> visit node s'
      | Threw e s' \<Rightarrow> Threw e s')"

definition visitTopLevel ::
  "(string \<Rightarrow> string \<Rightarrow> string) \<Rightarrow> string \<Rightarrow> statement \<Rightarrow> PostProcessor
     \<Rightarrow> (unit, PostProcessor) outcome" where
  "visitTopLevel pathToModuleName file node s =
     (case kind node of
        ExpressionStatement expr \<Rightarrow>
          (if \<not> strippedStrict s \<and> isUseStrict node
           then Returned () ((writeText (leadingTrivia node) s)\<lparr>strippedStrict := True\<rparr>)
           else rewriteOrVisit pathToModuleName file node s)
      | VariableStatement decls \<Rightarrow> rewriteOrVisit pathToModuleName file node s
      | OtherStatement \<Rightarrow> visit node s)"

text \<open>
  The loop of \<open>process\<close> over the top-level statements. The statements of a source file
  tile it: each begins (\<open>getFullStart()\<close>) where the one before ends, so the range the
  loop copies between two statements is empty; the text behind the last statement is
  \<open>endOfFileText\<close>.
\<close>

definition visitStatements ::
  "(string \<Rightarrow> string \<Rightarrow> string) \<Rightarrow> string \<Rightarrow> statement list \<Rightarrow> PostProcessor
     \<Rightarrow> (unit, PostProcessor) outcome" where
  "visitStatements pathToModuleName file stmts s =
     forEach (visitTopLevel pathToModuleName file) stmts s"

record processResult =
  resultOutput :: string
  referencedModules :: "string list"

definition process ::
  "(string \<Rightarrow> string \<Rightarrow> string) \<Rightarrow> sourceFile \<Rightarrow> (processResult, PostProcessor) outcome" where
  "process pathToModuleName file =
     (let moduleName = pathToModuleName [] (fileName file);
          s0 = emit (''goog.module('' @ [CHR 0x27] @ moduleName @ [CHR 0x27] @ '');'')
                 newPostProcessor
      in case visitStatements pathToModuleName (fileName file) (statements file) s0 of
           Threw e s1 \<Rightarrow> Threw e s1
         | Returned u s1 \<Rightarrow>
             (let s2 = writeText (endOfFileText file) s1
              in Returned
                   \<lparr>resultOutput = concat (outputBuf s2),
                    referencedModules = object_keys (moduleVariables s2)\<rparr> s2))"

subsection \<open>Which module a top-level statement refers to\<close>

text \<open>
  The spec's words for the pass (4.4): it recognises exactly the forms
  \<open>var X = require("M")\<close>, bare \<open>require("M")\<close> and \<open>__export(require("M"))\<close>; a raw
  specifier with the prefix \<open>goog:\<close> names its module directly, any other specifier is
  resolved by the callback. \<open>referencedModule\<close> is the module identifier a statement of one
  of these forms refers to, \<open>exportedModule\<close> the one of a statement of the third form.
\<close>

definition resolveModule :: "(string \<Rightarrow> string \<Rightarrow> string) \<Rightarrow> string \<Rightarrow> string \<Rightarrow> string" where
  "resolveModule pathToModuleName file req =
     (if take 5 req = ''goog:'' then drop 5 req else pathToModuleName file req)"

definition varRequire :: "string \<Rightarrow> string \<Rightarrow> statementKind" where
  "varRequire x req =
     VariableStatement
       [VariableDeclaration (IdentifierName x)
          (Some (CallExpression (Identifier ''require'') [StringLiteral req]))]"

definition bareRequire :: "string \<Rightarrow> statementKind" where
  "bareRequire req =
     ExpressionStatement (CallExpression (Identifier ''require'') [StringLiteral req])"

definition exportRequire :: "string \<Rightarrow> statementKind" where
  "exportRequire req =
     ExpressionStatement
       (CallExpression (Identifier ''__export'')
          [CallExpression (Identifier ''require'') [StringLiteral req]])"

definition requiredModule ::
  "(string \<Rightarrow> string \<Rightarrow> string) \<Rightarrow> string \<Rightarrow> expression \<Rightarrow> string option" where
  "requiredModule pathToModuleName file e =
     (case isRequire e of
        Some req \<Rightarrow> if req = [] then None else Some (resolveModule pathToModuleName file req)
      | None \<Rightarrow> None)"

definition exportedModule ::
  "(string \<Rightarrow> string \<Rightarrow> string) \<Rightarrow> string \<Rightarrow> statement \<Rightarrow> string option" where
  "exportedModule pathToModuleName file node =
     (case kind node of
        ExpressionStatement e \<Rightarrow>
          (case isExportRequire e of
             Some req \<Rightarrow> if req = [] then None else Some (pathToModuleName file req)
           | None \<Rightarrow> None)
      | _ \<Rightarrow> None)"

definition referencedModule ::
  "(string \<Rightarrow> string \<Rightarrow> string) \<Rightarrow> string \<Rightarrow> statement \<Rightarrow> string option" where
  "referencedModule pathToModuleName file node =
     (case exportedModule pathToModuleName file node of
        Some m \<Rightarrow> Some m
      | None \<Rightarrow>
          (case kind node of
             ExpressionStatement e \<Rightarrow> requiredModule pathToModuleName file e
           | VariableStatement [VariableDeclaration (IdentifierName x) (Some e)] \<Rightarrow>
               requiredModule pathToModuleName file e
           | _ \<Rightarrow> None))"

text \<open>The variable a rewritten \<open>require\<close> statement binds.\<close>

definition boundVariable :: "statement \<Rightarrow> PostProcessor \<Rightarrow> string" where
  "boundVariable node s =
     (case kind node of
        VariableStatement [VariableDeclaration (IdentifierName x) (Some e)] \<Rightarrow>
          if x = [] then ''unused_'' @ nat_toString (unusedIndex s) @ ''_'' else x
      | _ \<Rightarrow> ''unused_'' @ nat_toString (unusedIndex s) @ ''_'')"

text \<open>A list of keys extended by a key that is new to it.\<close>

fun addKey :: "string list \<Rightarrow> string option \<Rightarrow> string list" where
  "addKey ks None = ks"
| "addKey ks (Some k) = (if k \<in> set ks then ks else ks @ [k])"

text \<open>The distinct module identifiers of a list of references, each at its first occurrence.\<close>

definition firstOccurrences :: "string option list \<Rightarrow> string list" where
  "firstOccurrences refs = fold (\<lambda>r ks. addKey ks r) refs []"

subsection \<open>Example statements\<close>

definition exampleResolver :: "string \<Rightarrow> string \<Rightarrow> string" where
  "exampleResolver context name = name"

definition stmtOther :: statement where
  "stmtOther = \<lparr>leadingTrivia = [], kind = OtherStatement, pieces = [SourceText ''f();'']\<rparr>"

definition stmtUseStrict :: statement where
  "stmtUseStrict =
     \<lparr>leadingTrivia = [],
      kind = ExpressionStatement (StringLiteral ''use strict''),
      pieces = [SourceText ([CHR 0x22] @ ''use strict'' @ [CHR 0x22] @ '';'')]\<rparr>"

definition stmtVar :: "string \<Rightarrow> string \<Rightarrow> statement" where
  "stmtVar x req =
     \<lparr>leadingTrivia = [],
      kind = varRequire x req,
      pieces = [SourceText (''var '' @ x @ '' = require('' @ [CHR 0x22] @ req @ [CHR 0x22] @ '');'')]\<rparr>"

definition stmtExport :: "string \<Rightarrow> statement" where
  "stmtExport req =
     \<lparr>leadingTrivia = [],
      kind = exportRequire req,
      pieces = [SourceText (''__export(require('' @ [CHR 0x22] @ req @ [CHR 0x22] @ ''));'')]\<rparr>"

definition stmtBare :: "string \<Rightarrow> statement" where
  "stmtBare req =
     \<lparr>leadingTrivia = [],
      kind = bareRequire req,
      pieces = [SourceText (''require('' @ [CHR 0x22] @ req @ [CHR 0x22] @ '');'')]\<rparr>"

section \<open>Documentation comments: getJSDocAnnotation\<close>

text \<open>An exception raised with \<open>throw new Error(message)\<close>.\<close>

datatype error = Error string

record JSDocTag =
  tagName :: "string option"
  parameterName :: "string option"
  tagType :: "string option"
  optional :: bool
  restParam :: bool
  destructuring :: bool
  tagText :: "string option"

record JSDocComment =
  tags :: "JSDocTag list"

text \<open>A tag object literal: the fields not written are absent (\<open>undefined\<close>, falsy).\<close>

definition emptyTag :: JSDocTag where
  "emptyTag =
     \<lparr>tagName = None, parameterName = None, tagType = None, optional = False,
      restParam = False, destructuring = False, tagText = None\<rparr>"

subsection \<open>The regular expressions\<close>

text \<open>
  \<open>\s\<close> and \<open>trim\<close> take the same characters as white space: tab, line feed, vertical tab,
  form feed, carriage return, space and no-break space (among the code units below 256).
  The dot and, under the flag \<open>m\<close>, the anchor \<open>^\<close> look at line terminators: line feed and
  carriage return.
\<close>

definition is_space :: "char \<Rightarrow> bool" where
  "is_space c = (c \<in> set [CHR 0x09, CHR 0x0A, CHR 0x0B, CHR 0x0C, CHR 0x0D, CHR 0x20, CHR 0xA0])"

definition is_line_terminator :: "char \<Rightarrow> bool" where
  "is_line_terminator c = (c = CHR 0x0A \<or> c = CHR 0x0D)"

definition trim :: "string \<Rightarrow> string" where
  "trim s = rev (dropWhile is_space (rev (dropWhile is_space s)))"

text \<open>
  \<open>comment.match(/^\/\*\*([\s\S]*?)\*\/$/)\<close>: the comment starts with \<open>/**\<close> and ends with
  \<open>*/\<close>, the two not overlapping; the group is what lies between.
\<close>

definition docCommentBody :: "string \<Rightarrow> string option" where
  "docCommentBody comment =
     (if 5 \<le> length comment \<and> take 3 comment = ''/**''
         \<and> drop (length comment - 2) comment = ''*/''
      then Some (take (length comment - 5) (drop 3 comment))
      else None)"

text \<open>
  One match of \<open>/^\s*\* /\<close> at the head of a string: the longest run of white space, a star
  and a space; the result is what follows the match.
\<close>

definition starPrefix :: "string \<Rightarrow> string option" where
  "starPrefix s =
     (case dropWhile is_space s of
        c1 # c2 # rest \<Rightarrow> if c1 = CHR ''*'' \<and> c2 = CHR '' '' then Some rest else None
      | _ \<Rightarrow> None)"

lemma starPrefix_shorter: "starPrefix s = Some rest \<Longrightarrow> length rest < length s"
proof -
  assume a: "starPrefix s = Some rest"
  then obtain c1 c2 where "dropWhile is_space s = c1 # c2 # rest"
    by (auto simp add: starPrefix_def split: list.splits if_splits)
  then have "length rest < length (dropWhile is_space s)" by simp
  also have "\<dots> \<le> length s" by (rule length_dropWhile_le)
  finally show ?thesis .
qed

text \<open>
  \<open>comment.replace(/^\s*\* /gm, '')\<close>: scanning from the left, a match may start at the
  beginning of the string or right after a line terminator; the text of a match is dropped
  and the scan goes on behind it.
\<close>

function stripStars :: "bool \<Rightarrow> string \<Rightarrow> string" where
  "stripStars atLineStart [] = []"
| "stripStars atLineStart (c # cs) =
     (case (if atLineStart then starPrefix (c # cs) else None) of
        Some rest \<Rightarrow> stripStars False rest
      | None \<Rightarrow> c # stripStars (is_line_terminator c) cs)"
  by pat_completeness auto
termination
  by (relation "measure (\<lambda>(b, s). length s)")
     (auto split: if_splits dest: starPrefix_shorter)

text \<open>\<open>comment.split('\n')\<close>.\<close>

fun splitLines :: "string \<Rightarrow> string list" where
  "splitLines [] = [[]]"
| "splitLines (c # cs) =
     (if c = CHR 0x0A then [] # splitLines cs
      else (case splitLines cs of l # ls \<Rightarrow> (c # l) # ls | [] \<Rightarrow> [[c]]))"

text \<open>
  \<open>line.match(/^@(\S+) *(.*)/)\<close>: the groups are the tag name and the text.
\<close>

definition matchTag :: "string \<Rightarrow> (string \<times> string) option" where
  "matchTag line =
     (case line of
        [] \<Rightarrow> None
      | c # rest \<Rightarrow>
          if c = CHR ''@'' \<and> takeWhile (\<lambda>c. \<not> is_space c) rest \<noteq> []
          then Some (takeWhile (\<lambda>c. \<not> is_space c) rest,
                     takeWhile (\<lambda>c. \<not> is_line_terminator c)
                       (dropWhile (\<lambda>c. c = CHR '' '')
                          (dropWhile (\<lambda>c. \<not> is_space c) rest)))
          else None)"

text \<open>
  \<open>text.match(/^(\S+) ?(.*)/)\<close>: the groups are the parameter name and the remaining text.
\<close>

definition matchParam :: "string \<Rightarrow> (string \<times> string) option" where
  "matchParam txt =
     (if takeWhile (\<lambda>c. \<not> is_space c) txt = [] then None
      else Some (takeWhile (\<lambda>c. \<not> is_space c) txt,
                 takeWhile (\<lambda>c. \<not> is_line_terminator c)
                   (case dropWhile (\<lambda>c. \<not> is_space c) txt of
                      c # rest \<Rightarrow> if c = CHR '' '' then rest else c # rest
                    | [] \<Rightarrow> [])))"

subsection \<open>The loop over the lines\<close>

text \<open>One iteration of \<open>for (let line of lines)\<close>, on the tags gathered so far.\<close>

definition parseLine :: "JSDocTag list \<Rightarrow> string \<Rightarrow> error + JSDocTag list" where
  "parseLine tgs line =
     (case matchTag line of
        Some (name, txt) \<Rightarrow>
          if name = ''type'' then Inl (Error ''@type annotations are not allowed'')
          else if (name = ''param'' \<or> name = ''return'') \<and> take 1 txt = ''{''
          then Inl (Error ''type annotations (using {...}) are not allowed'')
          else
            (let (parameterName', txt') =
                   (if name = ''param''
                    then (case matchParam txt of
                            Some (pn, rest) \<Rightarrow> (Some pn, rest)
                          | None \<Rightarrow> (None, txt))
                    else (None, txt));
                 tag = emptyTag\<lparr>tagName := Some name\<rparr>;
                 tag = (if truthy parameterName' then tag\<lparr>parameterName := parameterName'\<rparr>
                        else tag);
                 tag = (if txt' \<noteq> [] then tag\<lparr>tagText := Some txt'\<rparr> else tag)
             in Inr (tgs @ [tag]))
      | None \<Rightarrow>
          if tgs = [] then Inr [emptyTag\<lparr>tagText := Some (trim line)\<rparr>]
          else Inr (butlast tgs
                    @ [(last tgs)\<lparr>tagText :=
                          Some (js_string (tagText (last tgs)) @ '' '' @ trim line)\<rparr>]))"

fun parseLines :: "JSDocTag list \<Rightarrow> string list \<Rightarrow> error + JSDocTag list" where
  "parseLines tgs [] = Inr tgs"
| "parseLines tgs (line # rest) =
     (case parseLine tgs line of
        Inl e \<Rightarrow> Inl e
      | Inr tgs' \<Rightarrow> parseLines tgs' rest)"

text \<open>The lines of a documentation comment's body, as the loop reads them.\<close>

definition commentLines :: "string \<Rightarrow> string list" where
  "commentLines body = splitLines (stripStars True (trim body))"

text \<open>
  \<open>getJSDocAnnotation\<close>: \<open>Inl\<close> is the exception, \<open>Inr None\<close> the result \<open>null\<close>.
\<close>

definition getJSDocAnnotation :: "string \<Rightarrow> error + JSDocComment option" where
  "getJSDocAnnotation comment =
     (case docCommentBody comment of
        None \<Rightarrow> Inr None
      | Some body \<Rightarrow>
          (case parseLines [] (commentLines body) of
             Inl e \<Rightarrow> Inl e
           | Inr tgs \<Rightarrow> Inr (Some \<lparr>tags = tgs\<rparr>)))"


section \<open>The annotation pass: class Annotator\<close>

subsection \<open>The checked syntax tree\<close>

text \<open>
  The parser and the type checker are TypeScript's; a node holds what tsickle.ts reads
  from them. \<open>fullText\<close> is \<open>node.getFullText()\<close>, the source from \<open>getFullStart()\<close> to
  \<open>getEnd()\<close>; \<open>triviaWidth\<close> is \<open>getStart() - getFullStart()\<close>; \<open>leadingCommentRanges\<close> is
  the result of \<open>ts.getLeadingCommentRanges(node.getFullText(), 0)\<close>, empty where that
  returns \<open>undefined\<close>.
\<close>

datatype NodeFlag = Ambient | Const | Export | Static | Private | Protected | Public

record nodeInfo =
  flags :: "NodeFlag set"
  fullStart :: nat
  triviaWidth :: nat
  fullText :: string
  leadingCommentRanges :: "(nat \<times> nat) list"

definition getStart :: "nodeInfo \<Rightarrow> nat" where
  "getStart info = fullStart info + triviaWidth info"

text \<open>
  A name node: an identifier (its text), a string literal (its \<open>text\<close> and its source
  text) or a node of another kind (its source text).
\<close>

datatype nameNode = NameIdentifier string | NameStringLiteral string string | NameOther string

fun nameGetText :: "nameNode \<Rightarrow> string" where
  "nameGetText (NameIdentifier t) = t"
| "nameGetText (NameStringLiteral t src) = src"
| "nameGetText (NameOther src) = src"

text \<open>
  A parameter of a signature, with what the checker knows of it: \<open>symbolName\<close> is
  \<open>paramSym.getName()\<close>; \<open>hasTypeArguments\<close> says whether the parameter's type has a
  \<open>typeArguments\<close> array (the source reads \<open>typeArguments[0]\<close> of a rest parameter's type,
  and that read raises a \<open>TypeError\<close> when \<open>typeArguments\<close> is \<open>undefined\<close>);
  \<open>paramRendered\<close> is what the type translator returns for the type that reaches
  \<open>typeToClosure\<close>.
\<close>

datatype bindingKind = IdentifierBinding | ArrayBindingPattern | ObjectBindingPattern

record parameterDeclaration =
  paramNameKind :: bindingKind
  paramNameText :: string
  hasInitializer :: bool
  hasQuestionToken :: bool
  hasDotDotDotToken :: bool
  symbolName :: string
  hasTypeArguments :: bool
  paramRendered :: string

record signatureDeclaration =
  sigInfo :: nodeInfo
  isConstructor :: bool
  parameters :: "parameterDeclaration list"
  returnRendered :: string

text \<open>
  A member of a class or an interface: a property (signature or declaration) with its
  name, a method (signature or declaration) with its name, a constructor, or a member of
  another kind, which may have a name. \<open>memberRendered\<close> is the translator's rendering of
  the member's type, \<open>memberKindName\<close> is \<open>ts.SyntaxKind[member.kind]\<close>, and
  \<open>commentSafeText\<close> is \<open>this.escapeForComment(p.getText())\<close> (a method of the rewrite
  engine, which is not among the sources).
\<close>

datatype memberKind =
    PropertyMember nameNode
  | MethodMember nameNode signatureDeclaration
  | ConstructorMember signatureDeclaration
  | OtherMember "nameNode option"

record member =
  memberInfo :: nodeInfo
  memberKind :: memberKind
  memberKindName :: string
  memberRendered :: string
  commentSafeText :: string

fun memberNameOf :: "memberKind \<Rightarrow> nameNode option" where
  "memberNameOf (PropertyMember n) = Some n"
| "memberNameOf (MethodMember n f) = Some n"
| "memberNameOf (ConstructorMember f) = None"
| "memberNameOf (OtherMember n) = n"

record classLike =
  className :: string
  members :: "member list"
  hasTypeParameters :: bool
  hasHeritageClauses :: bool

datatype variableName = VariableIdentifier string | VariablePattern string nat

record variableDecl =
  variableName :: variableName
  variableRendered :: string

text \<open>
  An enum member: its name's source text and its initializer. \<open>ConstantInitializer v\<close> is an
  initializer for which \<open>getConstantValue\<close> returns \<open>v\<close>; \<open>ExpressionInitializer chunks\<close> is
  any other initializer, with the chunks that \<open>this.visit(initializer)\<close> writes.
\<close>

datatype 'n enumInitializer =
    NoInitializer
  | ConstantInitializer 'n
  | ExpressionInitializer "string list"

record 'n enumMember =
  enumMemberName :: string
  initializer :: "'n enumInitializer"

record 'n enumDeclaration =
  enumName :: string
  enumMembers :: "'n enumMember list"

datatype moduleName =
    ModuleIdentifier string
  | ModuleStringLiteral string
  | ModuleOtherName string nat

datatype 'n node =
    ModuleDeclaration nodeInfo moduleName "'n node"
  | ModuleBlock nodeInfo "'n node list"
  | ClassDeclaration nodeInfo classLike
  | InterfaceDeclaration nodeInfo classLike
  | FunctionDeclaration nodeInfo string signatureDeclaration
  | VariableStatementNode nodeInfo "variableDecl list"
  | EnumDeclaration nodeInfo "'n enumDeclaration"
  | OtherNode nodeInfo string

fun nodeInfoOf :: "'n node \<Rightarrow> nodeInfo" where
  "nodeInfoOf (ModuleDeclaration info n b) = info"
| "nodeInfoOf (ModuleBlock info ns) = info"
| "nodeInfoOf (ClassDeclaration info c) = info"
| "nodeInfoOf (InterfaceDeclaration info c) = info"
| "nodeInfoOf (FunctionDeclaration info name f) = info"
| "nodeInfoOf (VariableStatementNode info ds) = info"
| "nodeInfoOf (EnumDeclaration info e) = info"
| "nodeInfoOf (OtherNode info k) = info"

subsection \<open>The state of an Annotator\<close>

text \<open>
  \<open>this.output\<close> is a reference to an array: either the array the rewrite engine created
  (\<open>mainOutput\<close>) or the array \<open>this.externsOutput\<close>. The two arrays are the store, and
  \<open>outputRef\<close> says which of them \<open>this.output\<close> refers to. \<open>emittedNamespaces\<close> is the
  plain object of that name.
\<close>

datatype arrayRef = MainArray | ExternsArray

datatype diagnostic = Diagnostic nat string | UnimplementedKind nat string string

record Options =
  untyped :: bool

record Annotator =
  mainOutput :: "string list"
  externsOutput :: "string list"
  outputRef :: arrayRef
  diagnostics :: "diagnostic list"
  emittedNamespaces :: "bool js_object"

definition newAnnotator :: Annotator where
  "newAnnotator =
     \<lparr>mainOutput = [], externsOutput = [], outputRef = MainArray, diagnostics = [],
      emittedNamespaces = []\<rparr>"

text \<open>
  Modelled from the spec: the methods of class \<open>Rewriter\<close> (rewriter.ts is not among the
  sources) as the spec describes the base rewrite engine: "emit synthesized text" appends
  a chunk to the array \<open>this.output\<close> refers to; "copy source bytes [a,b) to output" for a
  node's range from \<open>getFullStart()\<close> to \<open>getEnd()\<close> writes the node's full text, and nothing
  for an empty range; an error is collected as a diagnostic (position and message) and
  nothing is raised. \<open>errorUnimplementedKind\<close> collects the node kind and the place.
\<close>

definition annEmit :: "string \<Rightarrow> Annotator \<Rightarrow> Annotator" where
  "annEmit str s =
     (case outputRef s of
        MainArray \<Rightarrow> s\<lparr>mainOutput := mainOutput s @ [str]\<rparr>
      | ExternsArray \<Rightarrow> s\<lparr>externsOutput := externsOutput s @ [str]\<rparr>)"

definition annEmits :: "string list \<Rightarrow> Annotator \<Rightarrow> Annotator" where
  "annEmits strs s = fold annEmit strs s"

definition writeNodeRange :: "nodeInfo \<Rightarrow> Annotator \<Rightarrow> Annotator" where
  "writeNodeRange info s = (if fullText info = [] then s else annEmit (fullText info) s)"

definition annError :: "nat \<Rightarrow> string \<Rightarrow> Annotator \<Rightarrow> Annotator" where
  "annError pos msg s = s\<lparr>diagnostics := diagnostics s @ [Diagnostic pos msg]\<rparr>"

definition errorUnimplementedKind :: "nat \<Rightarrow> string \<Rightarrow> string \<Rightarrow> Annotator \<Rightarrow> Annotator" where
  "errorUnimplementedKind pos kindName place s =
     s\<lparr>diagnostics := diagnostics s @ [UnimplementedKind pos kindName place]\<rparr>"

abbreviation nl :: string where
  "nl \<equiv> [CHR 0x0A]"

subsection \<open>closureExternsBlacklist, unescapeName, typeToClosure\<close>

definition closureExternsBlacklist :: "string list" where
  "closureExternsBlacklist = [''exports'', ''global'', ''module'', ''WorkerGlobalScope'', ''Symbol'']"

definition unescapeName :: "string \<Rightarrow> string" where
  "unescapeName name = (if take 3 name = ''___'' then drop 1 name else name)"

text \<open>
  \<open>typeToClosure\<close>: \<open>rendered\<close> is what \<open>translator.translate(type, destructuring)\<close> returns
  (class \<open>TypeTranslator\<close> is not among the sources). The warnings of the translator go to
  the callback \<open>options.logWarning\<close> and leave the Annotator unchanged.
\<close>

definition typeToClosure :: "Options \<Rightarrow> string \<Rightarrow> string" where
  "typeToClosure options rendered = (if untyped options then ''?'' else rendered)"

subsection \<open>getJSDoc\<close>

text \<open>\<open>String.prototype.substring\<close>.\<close>

definition substring :: "string \<Rightarrow> nat \<Rightarrow> nat \<Rightarrow> string" where
  "substring s a b = take (max a b - min a b) (drop (min a b) s)"

definition getJSDoc :: "nodeInfo \<Rightarrow> Annotator \<Rightarrow> JSDocComment option \<times> Annotator" where
  "getJSDoc info s =
     (let txt = fullText info; comments = leadingCommentRanges info in
      if comments = [] then (None, s)
      else
        (let (pos, end) = last comments;
             comment = substring txt pos end
         in case getJSDocAnnotation comment of
              Inr result \<Rightarrow> (result, s)
            | Inl (Error message) \<Rightarrow> (None, annError (fullStart info + pos) message s)))"

text \<open>\<open>this.getJSDoc(node) || {tags: []}\<close>.\<close>

fun tagsOrEmpty :: "JSDocComment option \<Rightarrow> JSDocTag list" where
  "tagsOrEmpty None = []"
| "tagsOrEmpty (Some c) = tags c"

subsection \<open>emitFunctionType\<close>

text \<open>The text of the first tag of the hand-written comment that satisfies a test.\<close>

fun firstTagText :: "(JSDocTag \<Rightarrow> bool) \<Rightarrow> JSDocTag list \<Rightarrow> string option" where
  "firstTagText P [] = None"
| "firstTagText P (t # ts) = (if P t then tagText t else firstTagText P ts)"

definition paramTag :: "Options \<Rightarrow> JSDocTag list \<Rightarrow> parameterDeclaration \<Rightarrow> JSDocTag" where
  "paramTag options jsDocTags p =
     (let name = unescapeName (symbolName p);
          destructuring =
            (paramNameKind p = ArrayBindingPattern \<or> paramNameKind p = ObjectBindingPattern)
      in emptyTag
         \<lparr>tagName := Some ''param'',
          optional := (hasInitializer p \<or> hasQuestionToken p),
          parameterName := Some name,
          restParam := hasDotDotDotToken p,
          tagType := Some (typeToClosure options (paramRendered p)),
          tagText := firstTagText
                       (\<lambda>t. tagName t = Some ''param'' \<and> parameterName t = Some name)
                       jsDocTags\<rparr>)"

text \<open>The chunks emitted for one tag of the new comment.\<close>

definition tagChunks :: "JSDocTag \<Rightarrow> string list" where
  "tagChunks tag =
     ['' * '']
     @ (if truthy (tagName tag) then [''@'' @ the (tagName tag)] else [])
     @ (if truthy (tagType tag)
        then ['' {''] @ (if restParam tag then [''...''] else [])
             @ [the (tagType tag)] @ (if optional tag then [''=''] else []) @ [''}'']
        else [])
     @ (if truthy (parameterName tag) then ['' '' @ the (parameterName tag)] else [])
     @ (if truthy (tagText tag) then ['' '' @ the (tagText tag)] else [])
     @ [nl]"

text \<open>
  The loop over the parameters builds the tags and writes nothing; it reads
  \<open>typeArguments[0]\<close> of the type of each rest parameter. All output comes after the loops.
\<close>

definition restWithoutTypeArguments :: "parameterDeclaration \<Rightarrow> bool" where
  "restWithoutTypeArguments p = (hasDotDotDotToken p \<and> \<not> hasTypeArguments p)"

definition emitFunctionType ::
  "Options \<Rightarrow> signatureDeclaration \<Rightarrow> JSDocTag list \<Rightarrow> Annotator \<Rightarrow> (unit, Annotator) outcome" where
  "emitFunctionType options fnDecl extraTags s =
     (let (jsDoc, s1) = getJSDoc (sigInfo fnDecl) s;
          jsDocTags = tagsOrEmpty jsDoc;
          copied = filter (\<lambda>t. \<not> (tagName t = Some ''param'' \<or> tagName t = Some ''return''))
                     jsDocTags
      in if list_ex restWithoutTypeArguments (parameters fnDecl) then Threw TypeError s1
         else
           (let paramTags = map (paramTag options jsDocTags) (parameters fnDecl);
                returnTags =
                  (if isConstructor fnDecl then []
                   else [emptyTag
                         \<lparr>tagName := Some ''return'',
                          tagType := Some (typeToClosure options (returnRendered fnDecl)),
                          tagText := firstTagText (\<lambda>t. tagName t = Some ''return'') jsDocTags\<rparr>]);
                newDoc = extraTags @ copied @ paramTags @ returnTags
            in Returned ()
                 (annEmit ('' */'' @ nl)
                    (annEmits (concat (map tagChunks newDoc)) (annEmit (nl @ ''/**'' @ nl) s1)))))"

subsection \<open>propertyName, visitProperty, emitInterface, emitJSDocType\<close>

fun propertyName :: "nameNode option \<Rightarrow> string option" where
  "propertyName None = None"
| "propertyName (Some (NameIdentifier t)) = Some t"
| "propertyName (Some (NameStringLiteral t src)) = Some t"
| "propertyName (Some (NameOther src)) = None"

text \<open>The loop of \<open>visitProperty\<close> that gathers the hand-written tags.\<close>

fun existingAnnotation :: "JSDocTag list \<Rightarrow> string" where
  "existingAnnotation [] = []"
| "existingAnnotation (t # ts) =
     (if truthy (tagName t) then ''@'' @ the (tagName t) @ nl
      else js_string (tagText t) @ nl) @ existingAnnotation ts"

definition visitProperty :: "Options \<Rightarrow> string list \<Rightarrow> member \<Rightarrow> Annotator \<Rightarrow> Annotator" where
  "visitProperty options namespace p s =
     (let name = propertyName (memberNameOf (memberKind p)) in
      if \<not> truthy name
      then annEmit (''/* TODO: handle strange member:'' @ nl @ commentSafeText p @ nl @ ''*/'' @ nl) s
      else
        (let (jsDoc, s1) = getJSDoc (memberInfo p) s;
             existing = existingAnnotation (tagsOrEmpty jsDoc);
             s2 = annEmit '' /**'' s1;
             s3 = (if existing \<noteq> [] then annEmit ('' '' @ existing) s2 else s2);
             s4 = annEmit ('' @type {'' @ typeToClosure options (memberRendered p) @ ''} */'' @ nl) s3
         in annEmit (join ''.'' (namespace @ [the name]) @ '';'' @ nl) s4))"

definition emitInterface :: "Options \<Rightarrow> classLike \<Rightarrow> Annotator \<Rightarrow> Annotator" where
  "emitInterface options iface s =
     (if untyped options then s
      else
        (let s1 = annEmit (nl @ ''/** @record */'' @ nl) s;
             s2 = annEmit (''function '' @ className iface @ ''() {}'' @ nl) s1;
             s3 = (if hasTypeParameters iface
                   then annEmit (''// TODO: type parameters.'' @ nl) s2 else s2);
             s4 = (if hasHeritageClauses iface
                   then annEmit (''// TODO: derived interfaces.'' @ nl) s3 else s3);
             memberNamespace = [className iface, ''prototype'']
         in fold (visitProperty options memberNamespace) (members iface) s4))"

definition emitJSDocType :: "Options \<Rightarrow> string \<Rightarrow> string option \<Rightarrow> Annotator \<Rightarrow> Annotator" where
  "emitJSDocType options rendered additionalDocTag s =
     (let s1 = annEmit '' /**'' s;
          s2 = (if truthy additionalDocTag then annEmit ('' '' @ the additionalDocTag) s1 else s1)
      in annEmit ('' @type {'' @ typeToClosure options rendered @ ''} */'') s2)"

subsection \<open>maybeProcessEnum\<close>

datatype 'n enumValue = NumberValue 'n | NodeValue "string list"

text \<open>
  The first loop: the dictionary \<open>members\<close> and the counter \<open>i\<close>, with the operations
  \<open>ops\<close> on numbers.
\<close>

fun gatherMembers ::
  "'n numbers \<Rightarrow> 'n enumMember list \<Rightarrow> 'n enumValue js_object \<Rightarrow> 'n \<Rightarrow> 'n enumValue js_object" where
  "gatherMembers ops [] mems i = mems"
| "gatherMembers ops (m # ms) mems i =
     (case initializer m of
        ConstantInitializer enumConstValue \<Rightarrow>
          gatherMembers ops ms (obj_set mems (enumMemberName m) (NumberValue enumConstValue))
            (plusOne ops enumConstValue)
      | ExpressionInitializer chunks \<Rightarrow>
          gatherMembers ops ms (obj_set mems (enumMemberName m) (NodeValue chunks)) i
      | NoInitializer \<Rightarrow>
          gatherMembers ops ms (obj_set mems (enumMemberName m) (NumberValue i)) (plusOne ops i))"

text \<open>One iteration of the loop that emits the \<open>foo.BAR = 0;\<close> lines.\<close>

definition emitEnumAssignment ::
  "'n numbers \<Rightarrow> Options \<Rightarrow> string \<Rightarrow> 'n enumValue js_object \<Rightarrow> string \<Rightarrow> Annotator \<Rightarrow> Annotator" where
  "emitEnumAssignment ops options name mems mem s =
     (let s1 = (if \<not> untyped options then annEmit (''/** @type {number} */'' @ nl) s else s);
          s2 = annEmit (name @ ''.'' @ mem @ '' = '') s1;
          s3 = (case obj_get mems mem of
                  Some (NumberValue v) \<Rightarrow> annEmit (numberToString ops v) s2
                | Some (NodeValue chunks) \<Rightarrow> annEmits chunks s2
                | None \<Rightarrow> s2)
      in annEmit ('';'' @ nl) s3)"

definition emitEnumReverse :: "string \<Rightarrow> string \<Rightarrow> Annotator \<Rightarrow> Annotator" where
  "emitEnumReverse name mem s =
     annEmit (name @ ''['' @ name @ ''.'' @ mem @ ''] = '' @ [CHR 0x22] @ mem @ [CHR 0x22]
              @ '';'' @ nl) s"

definition maybeProcessEnum ::
  "'n numbers \<Rightarrow> Options \<Rightarrow> nodeInfo \<Rightarrow> 'n enumDeclaration \<Rightarrow> Annotator \<Rightarrow> bool \<times> Annotator" where
  "maybeProcessEnum ops options info decl s =
     (if Const \<in> flags info then (False, s)
      else
        (let mems = gatherMembers ops (enumMembers decl) [] (numZero ops);
             s1 = annEmit nl s;
             name = enumName decl;
             s2 = (if Export \<in> flags info then annEmit ''export '' s1 else s1);
             s3 = annEmit (''type '' @ name @ '' = number;'' @ nl) s2;
             s4 = (if Export \<in> flags info then annEmit ''export '' s3 else s3);
             s5 = annEmit (''let '' @ name @ '': any = {};'' @ nl) s4;
             s6 = fold (emitEnumAssignment ops options name mems) (object_keys mems) s5;
             s7 = fold (emitEnumReverse name) (object_keys mems) s6
         in (True, s7)))"

subsection \<open>The externs: writeExternsFunction, writeExternsVariable, writeExternsEnum\<close>

definition writeExternsFunction :: "string \<Rightarrow> string \<Rightarrow> string list \<Rightarrow> Annotator \<Rightarrow> Annotator" where
  "writeExternsFunction name params namespace s =
     (if namespace \<noteq> []
      then annEmit (join ''.'' (namespace @ [name]) @ '' = function('' @ params @ '') {};'' @ nl) s
      else annEmit (''function '' @ name @ ''('' @ params @ '') {}'' @ nl) s)"

definition writeExternsVariable ::
  "Options \<Rightarrow> variableDecl \<Rightarrow> string list \<Rightarrow> Annotator \<Rightarrow> Annotator" where
  "writeExternsVariable options decl namespace s =
     (case variableName decl of
        VariableIdentifier identifier \<Rightarrow>
          (let qualifiedName = join ''.'' (namespace @ [identifier]) in
           if qualifiedName \<in> set closureExternsBlacklist then s
           else
             (let s1 = emitJSDocType options (variableRendered decl) None s in
              if namespace \<noteq> [] then annEmit (nl @ qualifiedName @ '';'' @ nl) s1
              else annEmit (nl @ ''var '' @ qualifiedName @ '';'' @ nl) s1))
      | VariablePattern kindName pos \<Rightarrow>
          errorUnimplementedKind pos kindName ''externs for variable'' s)"

definition writeExternsEnumMember :: "string list \<Rightarrow> 'n enumMember \<Rightarrow> Annotator \<Rightarrow> Annotator" where
  "writeExternsEnumMember namespace m s =
     annEmit (join ''.'' (namespace @ [enumMemberName m]) @ '';'' @ nl)
       (annEmit (''/** @const {number} */'' @ nl) s)"

definition writeExternsEnum :: "'n enumDeclaration \<Rightarrow> string list \<Rightarrow> Annotator \<Rightarrow> Annotator" where
  "writeExternsEnum decl namespace0 s =
     (let namespace = namespace0 @ [enumName decl];
          s1 = annEmit (nl @ ''/** @const */'' @ nl) s;
          s2 = annEmit (join ''.'' namespace @ '' = {};'' @ nl) s1
      in fold (writeExternsEnumMember namespace) (enumMembers decl) s2)"

subsection \<open>writeExternsType\<close>

fun constructorsOf :: "member list \<Rightarrow> (nodeInfo \<times> signatureDeclaration) list" where
  "constructorsOf [] = []"
| "constructorsOf (m # ms) =
     (case memberKind m of
        ConstructorMember f \<Rightarrow> (memberInfo m, f) # constructorsOf ms
      | _ \<Rightarrow> constructorsOf ms)"

definition paramNamesOf :: "signatureDeclaration \<Rightarrow> string" where
  "paramNamesOf f = join '', '' (map paramNameText (parameters f))"

text \<open>One iteration of the loop of \<open>writeExternsType\<close> over the members.\<close>

definition writeExternsMember ::
  "Options \<Rightarrow> string \<Rightarrow> string list \<Rightarrow> member \<Rightarrow> Annotator \<Rightarrow> (unit, Annotator) outcome" where
  "writeExternsMember options typeName namespace m s =
     (case memberKind m of
        PropertyMember n \<Rightarrow>
          Returned ()
            (annEmit (nl @ typeName @ ''.prototype.'' @ nameGetText n @ '';'' @ nl)
               (emitJSDocType options (memberRendered m) None s))
      | MethodMember n f \<Rightarrow>
          andThen (emitFunctionType options f [] s)
            (\<lambda>u s'. Returned ()
               (annEmit (typeName @ ''.prototype.'' @ nameGetText n @ '' = function(''
                         @ paramNamesOf f @ '') {};'' @ nl) s'))
      | ConstructorMember f \<Rightarrow> Returned () s
      | OtherMember n \<Rightarrow>
          (let name = (case n of Some n' \<Rightarrow> namespace @ [nameGetText n'] | None \<Rightarrow> namespace)
           in Returned ()
                (annEmit (nl @ ''/* TODO: '' @ memberKindName m @ '' in '' @ join ''.'' name
                          @ '' */'' @ nl) s)))"

text \<open>
  The head of \<open>writeExternsType\<close> for a class: the constructor comment and the parameter
  names for the function line.
\<close>

definition writeExternsConstructor ::
  "Options \<Rightarrow> classLike \<Rightarrow> Annotator \<Rightarrow> (string, Annotator) outcome" where
  "writeExternsConstructor options decl s =
     (case constructorsOf (members decl) of
        [] \<Rightarrow> Returned [] (annEmit (''/** @constructor @struct */'' @ nl) s)
      | (ctorInfo, ctor) # others \<Rightarrow>
          (let s' = (case others of
                       [] \<Rightarrow> s
                     | (info1, ctor1) # others' \<Rightarrow>
                         annError (getStart info1)
                           ''multiple constructor signatures in declarations'' s)
           in andThen
                (emitFunctionType options ctor
                   [emptyTag\<lparr>tagName := Some ''constructor''\<rparr>,
                    emptyTag\<lparr>tagName := Some ''struct''\<rparr>] s')
                (\<lambda>u s''. Returned (paramNamesOf ctor) s'')))"

text \<open>
  \<open>writeExternsType\<close>. The source makes the assignment
  \<open>this.emittedNamespaces[typeName] = true\<close> before the test of the blacklist and once more
  after it.
\<close>

definition writeExternsType ::
  "Options \<Rightarrow> bool \<Rightarrow> classLike \<Rightarrow> string list \<Rightarrow> Annotator \<Rightarrow> (unit, Annotator) outcome" where
  "writeExternsType options isClass decl namespace s =
     (let typeName = join ''.'' (namespace @ [className decl]);
          s0 = s\<lparr>emittedNamespaces := obj_set (emittedNamespaces s) typeName True\<rparr>
      in if typeName \<in> set closureExternsBlacklist then Returned () s0
         else
           (let s1 = s0\<lparr>emittedNamespaces := obj_set (emittedNamespaces s0) typeName True\<rparr>
            in andThen
                 (if isClass then writeExternsConstructor options decl s1
                  else Returned [] (annEmit (''/** @record @struct */'' @ nl) s1))
                 (\<lambda>paramNames s2.
                    forEach (writeExternsMember options typeName namespace) (members decl)
                      (writeExternsFunction (className decl) paramNames namespace s2))))"

subsection \<open>visitExterns\<close>

text \<open>
  \<open>visitExterns\<close> has no \<open>try\<close>: the assignment \<open>this.output = originalOutput\<close> at its end
  (\<open>restoreOutput\<close>) runs when the \<open>switch\<close> returns, and an exception raised inside leaves
  the method before it. The namespace skeleton of a module declaration is written to
  \<open>this.output\<close>, which is the externs array at that point.
\<close>

definition restoreOutput ::
  "arrayRef \<Rightarrow> (unit, Annotator) outcome \<Rightarrow> (unit, Annotator) outcome" where
  "restoreOutput originalOutput r =
     (case r of
        Returned u s \<Rightarrow> Returned () (s\<lparr>outputRef := originalOutput\<rparr>)
      | Threw e s \<Rightarrow> Threw e s)"

definition emitNamespaceSkeleton :: "string list \<Rightarrow> Annotator \<Rightarrow> Annotator" where
  "emitNamespaceSkeleton namespace s =
     (let s' = annEmit (''/** @const */'' @ nl) s in
      if length namespace > 1
      then annEmit (join ''.'' namespace @ '' = {};'' @ nl) s'
      else annEmit (''var '' @ join '','' namespace @ '' = {};'' @ nl) s')"

fun visitExterns ::
    "Options \<Rightarrow> 'n node \<Rightarrow> string list \<Rightarrow> Annotator \<Rightarrow> (unit, Annotator) outcome"
  and visitExternsStatements ::
    "Options \<Rightarrow> 'n node list \<Rightarrow> string list \<Rightarrow> Annotator \<Rightarrow> (unit, Annotator) outcome"
where
  "visitExterns options node namespace0 s =
     (let originalOutput = outputRef s;
          s1 = s\<lparr>outputRef := ExternsArray\<rparr>;
          r =
            (case node of
               ModuleDeclaration info name body \<Rightarrow>
                 (case name of
                    ModuleIdentifier n \<Rightarrow>
                      (let namespace = namespace0 @ [n];
                           nsName = join ''.'' namespace
                       in case hasOwnProperty (emittedNamespaces s1) nsName of
                            Inl e \<Rightarrow> Threw e s1
                          | Inr emitted \<Rightarrow>
                              (let s' = (if \<not> emitted then emitNamespaceSkeleton namespace s1
                                         else s1)
                               in visitExterns options body namespace
                                    (s'\<lparr>emittedNamespaces :=
                                          obj_set (emittedNamespaces s') nsName True\<rparr>)))
                  | ModuleStringLiteral t \<Rightarrow> Returned () s1
                  | ModuleOtherName kindName pos \<Rightarrow>
                      Returned ()
                        (errorUnimplementedKind pos kindName ''externs generation of namespace'' s1))
             | ModuleBlock info stmts \<Rightarrow> visitExternsStatements options stmts namespace0 s1
             | ClassDeclaration info decl \<Rightarrow> writeExternsType options True decl namespace0 s1
             | InterfaceDeclaration info decl \<Rightarrow> writeExternsType options False decl namespace0 s1
             | FunctionDeclaration info name f \<Rightarrow>
                 andThen (emitFunctionType options f [] s1)
                   (\<lambda>u s'. Returned () (writeExternsFunction name (paramNamesOf f) namespace0 s'))
             | VariableStatementNode info decls \<Rightarrow>
                 Returned () (fold (\<lambda>decl. writeExternsVariable options decl namespace0) decls s1)
             | EnumDeclaration info decl \<Rightarrow> Returned () (writeExternsEnum decl namespace0 s1)
             | OtherNode info kindName \<Rightarrow>
                 Returned ()
                   (annEmit (nl @ ''/* TODO: '' @ kindName @ '' in '' @ join ''.'' namespace0
                             @ '' */'' @ nl) s1))
      in restoreOutput originalOutput r)"
| "visitExternsStatements options [] namespace0 s = Returned () s"
| "visitExternsStatements options (stmt # stmts) namespace0 s =
     (case visitExterns options stmt namespace0 s of
        Returned u s' \<Rightarrow> visitExternsStatements options stmts namespace0 s'
      | Threw e s' \<Rightarrow> Threw e s')"

declare visitExterns.simps [simp del]

subsection \<open>maybeProcess and the result of annotate\<close>

text \<open>
  \<open>maybeProcess\<close> on the nodes of this development: the ambient branch, the case of an
  interface declaration and the case of an enum declaration; module declarations, module
  blocks and variable statements have no case of their own (\<open>return false\<close>). The
  result is \<open>None\<close> for the other nodes that are not ambient: their cases rewrite through
  the generic traversal of the rewrite engine, which is outside this development.
\<close>

definition maybeProcess ::
  "'n numbers \<Rightarrow> Options \<Rightarrow> 'n node \<Rightarrow> Annotator \<Rightarrow> (bool, Annotator) outcome option" where
  "maybeProcess ops options node s =
     (if Ambient \<in> flags (nodeInfoOf node)
      then Some (andThen (visitExterns options node [] s)
                   (\<lambda>u s'. Returned True (writeNodeRange (nodeInfoOf node) s')))
      else
        (case node of
           InterfaceDeclaration info iface \<Rightarrow>
             Some (Returned True (writeNodeRange info (emitInterface options iface s)))
         | EnumDeclaration info decl \<Rightarrow>
             (let (handled, s') = maybeProcessEnum ops options info decl s
              in Some (Returned handled s'))
         | ModuleDeclaration info name body \<Rightarrow> Some (Returned False s)
         | ModuleBlock info stmts \<Rightarrow> Some (Returned False s)
         | VariableStatementNode info decls \<Rightarrow> Some (Returned False s)
         | _ \<Rightarrow> None))"

record Output =
  outputText :: string
  externs :: "string option"
  outputDiagnostics :: "diagnostic list"

text \<open>What \<open>annotate\<close> returns once the traversal has left the Annotator in state \<open>s\<close>.\<close>

definition annotateResult :: "Annotator \<Rightarrow> Output" where
  "annotateResult s =
     \<lparr>outputText = concat (case outputRef s of MainArray \<Rightarrow> mainOutput s
                                              | ExternsArray \<Rightarrow> externsOutput s),
      externs = (if externsOutput s \<noteq> []
                 then Some (''/** @externs */'' @ nl @ concat (externsOutput s)) else None),
      outputDiagnostics = diagnostics s\<rparr>"

subsection \<open>The spec's walk over the members of an enum\<close>

text \<open>
  The spec's words (4.1, enum declaration): member values are computed by walking the
  members in declaration order, with a running implicit value counter that resets to the
  last explicit constant plus one whenever an explicit constant is seen and increments by
  one per member without a value; a member whose initializer is not a constant keeps its
  initializer expression.
\<close>

fun memberValues ::
  "'n numbers \<Rightarrow> 'n \<Rightarrow> 'n enumMember list \<Rightarrow> (string \<times> 'n enumValue) list" where
  "memberValues ops counter [] = []"
| "memberValues ops counter (m # ms) =
     (case initializer m of
        ConstantInitializer c \<Rightarrow>
          (enumMemberName m, NumberValue c) # memberValues ops (plusOne ops c) ms
      | NoInitializer \<Rightarrow>
          (enumMemberName m, NumberValue counter) # memberValues ops (plusOne ops counter) ms
      | ExpressionInitializer chunks \<Rightarrow>
          (enumMemberName m, NodeValue chunks) # memberValues ops counter ms)"

text \<open>The chunks of one member's assignment and of one member's reverse-lookup line.\<close>

fun assignmentChunks ::
  "'n numbers \<Rightarrow> Options \<Rightarrow> string \<Rightarrow> string \<times> 'n enumValue \<Rightarrow> string list" where
  "assignmentChunks ops options name (mem, v) =
     (if untyped options then [] else [''/** @type {number} */'' @ nl])
     @ [name @ ''.'' @ mem @ '' = '']
     @ (case v of NumberValue i \<Rightarrow> [numberToString ops i] | NodeValue chunks \<Rightarrow> chunks)
     @ ['';'' @ nl]"

definition reverseLookupChunk :: "string \<Rightarrow> string \<Rightarrow> string" where
  "reverseLookupChunk name mem =
     name @ ''['' @ name @ ''.'' @ mem @ ''] = '' @ [CHR 0x22] @ mem @ [CHR 0x22] @ '';'' @ nl"

subsection \<open>Example nodes\<close>

definition ambientInfo :: "string \<Rightarrow> nodeInfo" where
  "ambientInfo txt =
     \<lparr>flags = {Ambient}, fullStart = 0, triviaWidth = 0, fullText = txt,
      leadingCommentRanges = []\<rparr>"

definition plainInfo :: "string \<Rightarrow> nodeInfo" where
  "plainInfo txt =
     \<lparr>flags = {}, fullStart = 0, triviaWidth = 0, fullText = txt, leadingCommentRanges = []\<rparr>"

text \<open>\<open>enum E {A, B = five, C}\<close>, for a constant \<open>five\<close>.\<close>

definition enumABC :: "'n \<Rightarrow> 'n enumDeclaration" where
  "enumABC five =
     \<lparr>enumName = ''E'',
      enumMembers =
        [\<lparr>enumMemberName = ''A'', initializer = NoInitializer\<rparr>,
         \<lparr>enumMemberName = ''B'', initializer = ConstantInitializer five\<rparr>,
         \<lparr>enumMemberName = ''C'', initializer = NoInitializer\<rparr>]\<rparr>"

definition enumE :: "'n enumDeclaration" where
  "enumE = \<lparr>enumName = ''E'', enumMembers = [\<lparr>enumMemberName = ''A'', initializer = NoInitializer\<rparr>]\<rparr>"

text \<open>\<open>enum E {__proto__, A}\<close>.\<close>

definition enumProto :: "'n enumDeclaration" where
  "enumProto =
     \<lparr>enumName = ''E'',
      enumMembers =
        [\<lparr>enumMemberName = ''__proto__'', initializer = NoInitializer\<rparr>,
         \<lparr>enumMemberName = ''A'', initializer = NoInitializer\<rparr>]\<rparr>"

definition constructorMember :: member where
  "constructorMember =
     \<lparr>memberInfo = ambientInfo ''constructor();'',
      memberKind = ConstructorMember
        \<lparr>sigInfo = ambientInfo ''constructor();'', isConstructor = True, parameters = [],
         returnRendered = ''C''\<rparr>,
      memberKindName = ''Constructor'', memberRendered = ''?'', commentSafeText = ''constructor();''\<rparr>"

definition classTwoConstructors :: classLike where
  "classTwoConstructors =
     \<lparr>className = ''C'', members = [constructorMember, constructorMember],
      hasTypeParameters = False, hasHeritageClauses = False\<rparr>"

definition interfaceI :: classLike where
  "interfaceI =
     \<lparr>className = ''I'',
      members =
        [\<lparr>memberInfo = ambientInfo ''x: number;'', memberKind = PropertyMember (NameIdentifier ''x''),
          memberKindName = ''PropertySignature'', memberRendered = ''number'',
          commentSafeText = ''x: number;''\<rparr>],
      hasTypeParameters = False, hasHeritageClauses = False\<rparr>"

section \<open>Properties of the module-rewrite pass\<close>

subsection \<open>Outcomes and loops\<close>

lemma stateOf_andThen_Returned:
  "m = Returned a s \<Longrightarrow> andThen m f = f a s"
  by simp

lemma stateOf_forEach:
  assumes "P s" and "\<And>x s. P s \<Longrightarrow> P (stateOf (f x s))"
  shows "P (stateOf (forEach f xs s))"
  using assms(1)
proof (induction xs arbitrary: s)
  case Nil
  then show ?case by simp
next
  case (Cons x xs)
  show ?case
  proof (cases "f x s")
    case (Returned u s')
    with assms(2)[OF Cons.prems, of x] have "P s'" by simp
    then show ?thesis using Returned Cons.IH by simp
  next
    case (Threw e s')
    with assms(2)[OF Cons.prems, of x] show ?thesis by simp
  qed
qed

lemma forEach_append:
  "forEach f (xs @ ys) s =
     (case forEach f xs s of Returned u s' \<Rightarrow> forEach f ys s' | Threw e s' \<Rightarrow> Threw e s')"
  by (induction xs arbitrary: s) (simp_all split: outcome.splits)

subsection \<open>What the primitives leave unchanged\<close>

lemma strippedStrict_emit [simp]: "strippedStrict (emit t s) = strippedStrict s"
  by (simp add: emit_def)
lemma strippedStrict_writeText [simp]: "strippedStrict (writeText t s) = strippedStrict s"
  by (simp add: writeText_def)
lemma moduleVariables_emit [simp]: "moduleVariables (emit t s) = moduleVariables s"
  by (simp add: emit_def)
lemma moduleVariables_writeText [simp]: "moduleVariables (writeText t s) = moduleVariables s"
  by (simp add: writeText_def)
lemma outputBuf_emit [simp]: "outputBuf (emit t s) = outputBuf s @ [t]"
  by (simp add: emit_def)
lemma outputBuf_writeText [simp]: "outputBuf (writeText t s) = outputBuf s @ (if t = [] then [] else [t])"
  by (simp add: writeText_def)

lemma strippedStrict_visitPiece [simp]:
  "strippedStrict (stateOf (visitPiece p s)) = strippedStrict s"
  by (cases p) (simp_all split: sum.splits bool.splits)

lemma strippedStrict_visit [simp]: "strippedStrict (stateOf (visit n s)) = strippedStrict s"
proof -
  have "strippedStrict (stateOf (forEach visitPiece ps s')) = strippedStrict s'" for ps s'
    by (rule stateOf_forEach[where P = "\<lambda>t. strippedStrict t = strippedStrict s'"]) simp_all
  then show ?thesis by (simp add: visit_def)
qed

lemma strippedStrict_rewriteRequire [simp]:
  "strippedStrict (stateOf (rewriteRequire p f n v c s)) = strippedStrict s"
  by (simp add: rewriteRequire_def Let_def case_prod_beta del: nat_toString.simps
      split: sum.splits bool.splits)

lemma strippedStrict_emitRewrittenRequires [simp]:
  "strippedStrict (stateOf (emitRewrittenRequires p f n s)) = strippedStrict s"
  by (simp add: emitRewrittenRequires_def Let_def
      split: statementKind.splits list.splits variableDeclaration.splits bindingName.splits
        option.splits expression.splits)

lemma strippedStrict_rewriteOrVisit [simp]:
  "strippedStrict (stateOf (rewriteOrVisit p f n s)) = strippedStrict s"
proof (cases "emitRewrittenRequires p f n s")
  case (Returned b s')
  with strippedStrict_emitRewrittenRequires[of p f n s] have "strippedStrict s' = strippedStrict s"
    by simp
  with Returned show ?thesis by (cases b) (simp_all add: rewriteOrVisit_def)
next
  case (Threw e s')
  with strippedStrict_emitRewrittenRequires[of p f n s] show ?thesis
    by (simp add: rewriteOrVisit_def)
qed

lemma strippedStrict_visitTopLevel_iff:
  "strippedStrict (stateOf (visitTopLevel p f n s)) = (strippedStrict s \<or> isUseStrict n)"
  by (cases "kind n") (auto simp add: visitTopLevel_def split: expression.splits)

lemma strippedStrict_visitStatements:
  "strippedStrict s \<Longrightarrow> strippedStrict (stateOf (visitStatements p f ns s))"
  unfolding visitStatements_def
  by (rule stateOf_forEach) (simp_all add: strippedStrict_visitTopLevel_iff del: isUseStrict.simps)

lemma not_strippedStrict_visitStatements:
  assumes "\<not> strippedStrict s" and "\<forall>n\<in>set ns. \<not> isUseStrict n"
  shows "\<not> strippedStrict (stateOf (visitStatements p f ns s))"
  using assms unfolding visitStatements_def
proof (induction ns arbitrary: s)
  case Nil
  then show ?case by simp
next
  case (Cons n ns)
  have "\<not> strippedStrict (stateOf (visitTopLevel p f n s))"
    using Cons.prems by (simp add: strippedStrict_visitTopLevel_iff del: isUseStrict.simps)
  then show ?case
    using Cons.IH Cons.prems(2) by (cases "visitTopLevel p f n s") simp_all
qed

lemma visitTopLevel_use_strict:
  assumes "isUseStrict u"
  shows "visitTopLevel p f u s =
           (if strippedStrict s then visit u s
            else Returned () ((writeText (leadingTrivia u) s)\<lparr>strippedStrict := True\<rparr>))"
proof -
  from assms obtain t where "kind u = ExpressionStatement (StringLiteral t)"
    by (auto split: statementKind.splits expression.splits)
  with assms show ?thesis
    by (simp add: visitTopLevel_def rewriteOrVisit_def emitRewrittenRequires_def)
qed

section \<open>Properties of the documentation-comment parser\<close>






section \<open>Properties of the annotation pass\<close>

subsection \<open>visitExterns, case by case\<close>

lemma visitExterns_ModuleIdentifier:
  "visitExterns options (ModuleDeclaration info (ModuleIdentifier n) body) ns s =
     restoreOutput (outputRef s)
       (case hasOwnProperty (emittedNamespaces s) (join ''.'' (ns @ [n])) of
          Inl e \<Rightarrow> Threw e (s\<lparr>outputRef := ExternsArray\<rparr>)
        | Inr emitted \<Rightarrow>
            visitExterns options body (ns @ [n])
              ((if \<not> emitted then emitNamespaceSkeleton (ns @ [n]) (s\<lparr>outputRef := ExternsArray\<rparr>)
                else s\<lparr>outputRef := ExternsArray\<rparr>)
               \<lparr>emittedNamespaces :=
                  obj_set (emittedNamespaces s) (join ''.'' (ns @ [n])) True\<rparr>))"
  by (subst visitExterns.simps)
     (simp add: Let_def emitNamespaceSkeleton_def annEmit_def split: sum.splits)

lemma visitExterns_ModuleStringLiteral:
  "visitExterns options (ModuleDeclaration info (ModuleStringLiteral t) body) ns s = Returned () s"
  by (subst visitExterns.simps) (simp add: Let_def restoreOutput_def)

lemma visitExterns_ModuleOtherName:
  "visitExterns options (ModuleDeclaration info (ModuleOtherName k pos) body) ns s =
     Returned () (errorUnimplementedKind pos k ''externs generation of namespace'' s)"
  by (subst visitExterns.simps) (simp add: Let_def restoreOutput_def errorUnimplementedKind_def)

lemma visitExterns_ModuleBlock:
  "visitExterns options (ModuleBlock info stmts) ns s =
     restoreOutput (outputRef s)
       (visitExternsStatements options stmts ns (s\<lparr>outputRef := ExternsArray\<rparr>))"
  by (subst visitExterns.simps) (simp add: Let_def)

lemma visitExterns_ClassDeclaration:
  "visitExterns options (ClassDeclaration info decl) ns s =
     restoreOutput (outputRef s)
       (writeExternsType options True decl ns (s\<lparr>outputRef := ExternsArray\<rparr>))"
  by (subst visitExterns.simps) (simp add: Let_def)

lemma visitExterns_InterfaceDeclaration:
  "visitExterns options (InterfaceDeclaration info decl) ns s =
     restoreOutput (outputRef s)
       (writeExternsType options False decl ns (s\<lparr>outputRef := ExternsArray\<rparr>))"
  by (subst visitExterns.simps) (simp add: Let_def)

lemma visitExterns_FunctionDeclaration:
  "visitExterns options (FunctionDeclaration info name f) ns s =
     restoreOutput (outputRef s)
       (andThen (emitFunctionType options f [] (s\<lparr>outputRef := ExternsArray\<rparr>))
          (\<lambda>u s'. Returned () (writeExternsFunction name (paramNamesOf f) ns s')))"
  by (subst visitExterns.simps) (simp add: Let_def)

lemma visitExterns_VariableStatementNode:
  "visitExterns options (VariableStatementNode info decls) ns s =
     Returned ()
       ((fold (\<lambda>decl. writeExternsVariable options decl ns) decls (s\<lparr>outputRef := ExternsArray\<rparr>))
        \<lparr>outputRef := outputRef s\<rparr>)"
  by (subst visitExterns.simps) (simp add: Let_def restoreOutput_def)

lemma visitExterns_EnumDeclaration:
  "visitExterns options (EnumDeclaration info decl) ns s =
     Returned () ((writeExternsEnum decl ns (s\<lparr>outputRef := ExternsArray\<rparr>))\<lparr>outputRef := outputRef s\<rparr>)"
  by (subst visitExterns.simps) (simp add: Let_def restoreOutput_def)

lemma visitExterns_OtherNode:
  "visitExterns options (OtherNode info kindName) ns s =
     Returned ()
       ((annEmit (nl @ ''/* TODO: '' @ kindName @ '' in '' @ join ''.'' ns @ '' */'' @ nl)
           (s\<lparr>outputRef := ExternsArray\<rparr>))\<lparr>outputRef := outputRef s\<rparr>)"
  by (subst visitExterns.simps) (simp add: Let_def restoreOutput_def)

lemmas visitExterns_node_simps [simp] =
  visitExterns_ModuleIdentifier visitExterns_ModuleStringLiteral visitExterns_ModuleOtherName
  visitExterns_ModuleBlock visitExterns_ClassDeclaration visitExterns_InterfaceDeclaration
  visitExterns_FunctionDeclaration visitExterns_VariableStatementNode
  visitExterns_EnumDeclaration visitExterns_OtherNode

lemma restoreOutput_Returned:
  "restoreOutput orig r = Returned u s' \<longleftrightarrow> (\<exists>s2. r = Returned () s2 \<and> s' = s2\<lparr>outputRef := orig\<rparr>)"
  by (cases r) (auto simp add: restoreOutput_def)

lemma restoreOutput_Threw: "restoreOutput orig r = Threw e s' \<longleftrightarrow> r = Threw e s'"
  by (cases r) (auto simp add: restoreOutput_def)

lemma stateOf_restoreOutput:
  "stateOf (restoreOutput orig r) =
     (case r of Returned u s2 \<Rightarrow> s2\<lparr>outputRef := orig\<rparr> | Threw e s2 \<Rightarrow> s2)"
  by (cases r) (simp_all add: restoreOutput_def)

lemma visitExterns_is_restoreOutput:
  "\<exists>r. visitExterns options node ns s = restoreOutput (outputRef s) r"
  by (subst visitExterns.simps) (unfold Let_def, blast)

lemma visitExterns_Returned_outputRef:
  assumes "visitExterns options node ns s = Returned u s'"
  shows "outputRef s' = outputRef s"
proof -
  obtain r where r: "visitExterns options node ns s = restoreOutput (outputRef s) r"
    using visitExterns_is_restoreOutput by blast
  with assms show ?thesis
    by (cases r) (auto simp add: restoreOutput_def)
qed

subsection \<open>The reference \<open>this.output\<close>\<close>

lemma outputRef_annEmit [simp]: "outputRef (annEmit t s) = outputRef s"
  by (simp add: annEmit_def split: arrayRef.splits)

lemma outputRef_annEmits [simp]: "outputRef (annEmits ts s) = outputRef s"
  unfolding annEmits_def by (induction ts arbitrary: s) simp_all

lemma outputRef_writeNodeRange [simp]: "outputRef (writeNodeRange info s) = outputRef s"
  by (simp add: writeNodeRange_def)

lemma outputRef_annError [simp]: "outputRef (annError pos msg s) = outputRef s"
  by (simp add: annError_def)

lemma outputRef_errorUnimplementedKind [simp]:
  "outputRef (errorUnimplementedKind pos k w s) = outputRef s"
  by (simp add: errorUnimplementedKind_def)

lemma outputRef_getJSDoc [simp]: "outputRef (snd (getJSDoc info s)) = outputRef s"
  by (simp add: getJSDoc_def Let_def split: prod.splits sum.splits error.splits)

lemma outputRef_emitFunctionType [simp]:
  "outputRef (stateOf (emitFunctionType options f extra s)) = outputRef s"
  by (simp add: emitFunctionType_def Let_def case_prod_beta)

lemma outputRef_emitJSDocType [simp]: "outputRef (emitJSDocType options r t s) = outputRef s"
  by (simp add: emitJSDocType_def Let_def)

lemma outputRef_visitProperty [simp]: "outputRef (visitProperty options ns p s) = outputRef s"
  by (simp add: visitProperty_def Let_def case_prod_beta)

lemma outputRef_fold:
  "(\<And>x s. outputRef (f x s) = outputRef s) \<Longrightarrow> outputRef (fold f xs s) = outputRef s"
  by (induction xs arbitrary: s) simp_all

lemma outputRef_emitInterface [simp]: "outputRef (emitInterface options i s) = outputRef s"
  by (simp add: emitInterface_def Let_def outputRef_fold)

lemma outputRef_writeExternsFunction [simp]:
  "outputRef (writeExternsFunction n ps ns s) = outputRef s"
  by (simp add: writeExternsFunction_def)

lemma outputRef_writeExternsVariable [simp]:
  "outputRef (writeExternsVariable options d ns s) = outputRef s"
  by (simp add: writeExternsVariable_def Let_def split: variableName.splits)

lemma outputRef_writeExternsEnumMember [simp]:
  "outputRef (writeExternsEnumMember ns m s) = outputRef s"
  by (simp add: writeExternsEnumMember_def)

lemma outputRef_writeExternsEnum [simp]: "outputRef (writeExternsEnum d ns s) = outputRef s"
  by (simp add: writeExternsEnum_def Let_def outputRef_fold)

lemma stateOf_andThen:
  "stateOf (andThen m f) = (case m of Returned a s \<Rightarrow> stateOf (f a s) | Threw e s \<Rightarrow> s)"
  by (cases m) simp_all

lemma outputRef_writeExternsMember [simp]:
  "outputRef (stateOf (writeExternsMember options tn ns m s)) = outputRef s"
proof (cases "memberKind m")
  case (MethodMember n f)
  with outputRef_emitFunctionType[of options f "[]" s] show ?thesis
    by (cases "emitFunctionType options f [] s") (simp_all add: writeExternsMember_def)
qed (simp_all add: writeExternsMember_def Let_def)

lemma outputRef_writeExternsConstructor [simp]:
  "outputRef (stateOf (writeExternsConstructor options d s)) = outputRef s"
proof (cases "constructorsOf (members d)")
  case Nil
  then show ?thesis by (simp add: writeExternsConstructor_def)
next
  case (Cons c others)
  obtain ctorInfo ctor where c: "c = (ctorInfo, ctor)" by (cases c)
  let ?s' = "case others of [] \<Rightarrow> s
             | (info1, ctor1) # others' \<Rightarrow>
                 annError (getStart info1) ''multiple constructor signatures in declarations'' s"
  let ?extra = "[emptyTag\<lparr>tagName := Some ''constructor''\<rparr>, emptyTag\<lparr>tagName := Some ''struct''\<rparr>]"
  have "outputRef ?s' = outputRef s" by (simp split: list.splits)
  with outputRef_emitFunctionType[of options ctor ?extra ?s'] show ?thesis
    using Cons c
    by (cases "emitFunctionType options ctor ?extra ?s'")
       (simp_all add: writeExternsConstructor_def Let_def)
qed

lemma outputRef_forEach:
  "(\<And>x s. outputRef (stateOf (f x s)) = outputRef s)
     \<Longrightarrow> outputRef (stateOf (forEach f xs s)) = outputRef s"
  by (rule stateOf_forEach[where P = "\<lambda>t. outputRef t = outputRef s"]) simp_all

lemma store_idem [simp]: "store (store obj k v) k v = store obj k v"
  by (induction obj) auto

lemma obj_set_idem [simp]: "obj_set (obj_set obj k v) k v = obj_set obj k v"
  by (simp add: obj_set_def)

text \<open>The second assignment to \<open>emittedNamespaces\<close> in \<open>writeExternsType\<close> changes nothing.\<close>

definition recordType :: "string \<Rightarrow> Annotator \<Rightarrow> Annotator" where
  "recordType typeName s = s\<lparr>emittedNamespaces := obj_set (emittedNamespaces s) typeName True\<rparr>"

lemma writeExternsType_eq:
  "writeExternsType options isClass decl ns s =
     (if join ''.'' (ns @ [className decl]) \<in> set closureExternsBlacklist
      then Returned () (recordType (join ''.'' (ns @ [className decl])) s)
      else
        andThen
          (if isClass
           then writeExternsConstructor options decl (recordType (join ''.'' (ns @ [className decl])) s)
           else Returned [] (annEmit (''/** @record @struct */'' @ nl)
                               (recordType (join ''.'' (ns @ [className decl])) s)))
          (\<lambda>paramNames s2.
             forEach (writeExternsMember options (join ''.'' (ns @ [className decl])) ns)
               (members decl) (writeExternsFunction (className decl) paramNames ns s2)))"
  by (simp add: writeExternsType_def Let_def recordType_def)

lemma outputRef_recordType [simp]: "outputRef (recordType tn s) = outputRef s"
  by (simp add: recordType_def)

lemma outputRef_writeExternsType [simp]:
  "outputRef (stateOf (writeExternsType options c d ns s)) = outputRef s"
proof -
  define tn where "tn = join ''.'' (ns @ [className d])"
  define s1 where "s1 = recordType tn s"
  define head where "head = (if c then writeExternsConstructor options d s1
               else Returned [] (annEmit (''/** @record @struct */'' @ nl) s1))"
  have s1: "outputRef s1 = outputRef s" by (simp add: s1_def)
  have head: "outputRef (stateOf head) = outputRef s"
    by (simp add: head_def s1)
  have eq: "writeExternsType options c d ns s =
      (if tn \<in> set closureExternsBlacklist then Returned () s1
       else andThen head
          (\<lambda>paramNames s2.
             forEach (writeExternsMember options tn ns)
               (members d) (writeExternsFunction (className d) paramNames ns s2)))"
    by (simp only: writeExternsType_eq tn_def s1_def head_def)
  show ?thesis
  proof (cases head)
    case (Returned names s2)
    with head have "outputRef s2 = outputRef s" by simp
    then have "outputRef (stateOf (forEach (writeExternsMember options tn ns) (members d)
                 (writeExternsFunction (className d) names ns s2))) = outputRef s"
      by (simp add: outputRef_forEach)
    with Returned show ?thesis
      by (simp add: eq s1)
  next
    case (Threw e s2)
    with head show ?thesis
      by (simp add: eq s1)
  qed
qed

subsection \<open>Own keys of a plain object\<close>

lemma map_fst_store:
  "map fst (store obj k v) = (if k \<in> set (map fst obj) then map fst obj else map fst obj @ [k])"
  by (induction obj) (auto simp: rev_image_eqI)

lemma ownKeys_map_fst: "ownKeys obj = set (map fst obj)"
  by (simp add: ownKeys_def)

lemma ownKeys_store [simp]: "ownKeys (store obj k v) = insert k (ownKeys obj)"
  unfolding ownKeys_map_fst map_fst_store by auto

lemma ownKeys_obj_set:
  "ownKeys (obj_set obj k v) = (if k = ''__proto__'' then ownKeys obj else insert k (ownKeys obj))"
  by (simp add: obj_set_def)

lemma ownKeys_obj_set_mono: "ownKeys obj \<subseteq> ownKeys (obj_set obj k v)"
  by (auto simp add: ownKeys_obj_set)

lemma proto_never_own: "''__proto__'' \<notin> ownKeys obj \<Longrightarrow> ''__proto__'' \<notin> ownKeys (obj_set obj k v)"
  by (simp add: ownKeys_obj_set)

lemma obj_set_absorb: "map_of obj k = Some v \<Longrightarrow> store obj k v = obj"
  by (induction obj) (auto split: if_splits)

lemma obj_set_True_absorb:
  "k \<in> ownKeys obj \<Longrightarrow> obj_set obj k () = obj"
proof -
  assume "k \<in> ownKeys obj"
  then have "map_of obj k = Some ()"
    by (cases "map_of obj k") (auto simp add: ownKeys_def map_of_eq_None_iff)
  then show ?thesis by (simp add: obj_set_def obj_set_absorb)
qed

subsection \<open>What the externs sub-algorithm leaves unchanged\<close>

text \<open>
  A step of the externs sub-algorithm leaves the main output as it is, appends to the
  externs output and removes no key of \<open>emittedNamespaces\<close>.
\<close>

definition grows :: "Annotator \<Rightarrow> Annotator \<Rightarrow> bool" where
  "grows s s' \<longleftrightarrow>
     mainOutput s' = mainOutput s
     \<and> (\<exists>more. externsOutput s' = externsOutput s @ more)
     \<and> ownKeys (emittedNamespaces s) \<subseteq> ownKeys (emittedNamespaces s')"

lemma grows_refl [simp]: "grows s s"
  by (simp add: grows_def)

lemma grows_trans: "grows a b \<Longrightarrow> grows b c \<Longrightarrow> grows a c"
  by (auto simp add: grows_def)

lemma grows_outputRef [simp]: "grows s (s'\<lparr>outputRef := r\<rparr>) = grows s s'"
  by (simp add: grows_def)

lemma grows_outputRef_left [simp]: "grows (s\<lparr>outputRef := r\<rparr>) s' = grows s s'"
  by (simp add: grows_def)

lemma grows_annEmit: "outputRef s = ExternsArray \<Longrightarrow> grows s (annEmit t s)"
  by (simp add: grows_def annEmit_def)

lemma grows_annEmit':
  "outputRef s' = ExternsArray \<Longrightarrow> grows s s' \<Longrightarrow> grows s (annEmit t s')"
  using grows_annEmit grows_trans by blast

lemma grows_annEmits': "outputRef s' = ExternsArray \<Longrightarrow> grows s s' \<Longrightarrow> grows s (annEmits ts s')"
  unfolding annEmits_def
  by (induction ts arbitrary: s') (simp_all add: grows_annEmit')

lemma grows_annError': "grows s s' \<Longrightarrow> grows s (annError pos msg s')"
  by (simp add: grows_def annError_def)

lemma grows_errorUnimplementedKind': "grows s s' \<Longrightarrow> grows s (errorUnimplementedKind pos k w s')"
  by (simp add: grows_def errorUnimplementedKind_def)

lemma grows_recordType': "grows s s' \<Longrightarrow> grows s (recordType tn s')"
  using ownKeys_obj_set_mono[of "emittedNamespaces s'" tn True]
  by (auto simp add: grows_def recordType_def)

lemma grows_getJSDoc': "grows s s' \<Longrightarrow> grows s (snd (getJSDoc info s'))"
  by (simp add: getJSDoc_def Let_def grows_annError' split: prod.splits sum.splits error.splits)

lemma grows_emitFunctionType':
  assumes "outputRef s' = ExternsArray" and "grows s s'"
  shows "grows s (stateOf (emitFunctionType options f extra s'))"
proof -
  have "outputRef (snd (getJSDoc (sigInfo f) s')) = ExternsArray"
    using assms(1) by simp
  moreover have "grows s (snd (getJSDoc (sigInfo f) s'))"
    using assms(2) by (rule grows_getJSDoc')
  ultimately show ?thesis
    by (simp add: emitFunctionType_def Let_def case_prod_beta grows_annEmit' grows_annEmits')
qed

lemma grows_emitJSDocType':
  "outputRef s' = ExternsArray \<Longrightarrow> grows s s' \<Longrightarrow> grows s (emitJSDocType options r t s')"
  by (simp add: emitJSDocType_def Let_def grows_annEmit')

lemma grows_writeExternsFunction':
  "outputRef s' = ExternsArray \<Longrightarrow> grows s s' \<Longrightarrow> grows s (writeExternsFunction n ps ns s')"
  by (simp add: writeExternsFunction_def grows_annEmit')

lemma grows_writeExternsVariable':
  "outputRef s' = ExternsArray \<Longrightarrow> grows s s' \<Longrightarrow> grows s (writeExternsVariable options d ns s')"
  by (simp add: writeExternsVariable_def Let_def grows_annEmit' grows_emitJSDocType'
      grows_errorUnimplementedKind' split: variableName.splits)

lemma grows_fold':
  assumes "\<And>x t. outputRef (f x t) = outputRef t"
    and "\<And>x t. outputRef t = ExternsArray \<Longrightarrow> grows s t \<Longrightarrow> grows s (f x t)"
  shows "outputRef s' = ExternsArray \<Longrightarrow> grows s s' \<Longrightarrow> grows s (fold f xs s')"
  by (induction xs arbitrary: s') (simp_all add: assms)

lemma grows_writeExternsEnum':
  assumes "outputRef s' = ExternsArray" and "grows s s'"
  shows "grows s (writeExternsEnum d ns s')"
proof -
  have members: "grows s (fold (writeExternsEnumMember nsx) ms t)"
    if "outputRef t = ExternsArray" "grows s t" for nsx :: "string list" and ms :: "'a enumMember list" and t
    using that
    by (induction ms arbitrary: t) (simp_all add: writeExternsEnumMember_def grows_annEmit')
  show ?thesis
    unfolding writeExternsEnum_def Let_def
    by (intro members grows_annEmit') (simp_all add: assms)
qed

lemma grows_writeExternsMember':
  assumes "outputRef s' = ExternsArray" and "grows s s'"
  shows "grows s (stateOf (writeExternsMember options tn ns m s'))"
proof (cases "memberKind m")
  case (MethodMember n f)
  have g: "grows s (stateOf (emitFunctionType options f [] s'))"
    using assms by (rule grows_emitFunctionType')
  have o: "outputRef (stateOf (emitFunctionType options f [] s')) = ExternsArray"
    using assms(1) by simp
  show ?thesis
    using MethodMember g o
    by (cases "emitFunctionType options f [] s'")
       (simp_all add: writeExternsMember_def grows_annEmit')
qed (use assms in \<open>simp_all add: writeExternsMember_def Let_def grows_annEmit' grows_emitJSDocType'\<close>)

lemma grows_writeExternsConstructor':
  assumes "outputRef s' = ExternsArray" and "grows s s'"
  shows "grows s (stateOf (writeExternsConstructor options d s'))"
proof (cases "constructorsOf (members d)")
  case Nil
  then show ?thesis using assms by (simp add: writeExternsConstructor_def grows_annEmit')
next
  case (Cons c others)
  obtain ctorInfo ctor where c: "c = (ctorInfo, ctor)" by (cases c)
  define t where "t = (case others of [] \<Rightarrow> s'
             | (info1, ctor1) # others' \<Rightarrow>
                 annError (getStart info1) ''multiple constructor signatures in declarations'' s')"
  define extra where
    "extra = [emptyTag\<lparr>tagName := Some ''constructor''\<rparr>, emptyTag\<lparr>tagName := Some ''struct''\<rparr>]"
  have t: "outputRef t = ExternsArray" "grows s t"
    using assms by (simp_all add: t_def grows_annError' split: list.splits)
  have "grows s (stateOf (emitFunctionType options ctor extra t))"
    using t by (rule grows_emitFunctionType')
  moreover have "writeExternsConstructor options d s' =
      andThen (emitFunctionType options ctor extra t) (\<lambda>u s''. Returned (paramNamesOf ctor) s'')"
    using Cons c by (simp add: writeExternsConstructor_def Let_def t_def extra_def)
  ultimately show ?thesis
    by (cases "emitFunctionType options ctor extra t") simp_all
qed

lemma grows_forEach':
  assumes "\<And>x t. outputRef (stateOf (f x t)) = outputRef t"
    and "\<And>x t. outputRef t = ExternsArray \<Longrightarrow> grows s t \<Longrightarrow> grows s (stateOf (f x t))"
    and "outputRef s' = ExternsArray" and "grows s s'"
  shows "grows s (stateOf (forEach f xs s'))"
proof -
  have "outputRef (stateOf (forEach f xs s')) = ExternsArray \<and> grows s (stateOf (forEach f xs s'))"
    by (rule stateOf_forEach[where P = "\<lambda>t. outputRef t = ExternsArray \<and> grows s t"])
       (simp_all add: assms)
  then show ?thesis by simp
qed

lemma grows_writeExternsType':
  assumes "outputRef s' = ExternsArray" and "grows s s'"
  shows "grows s (stateOf (writeExternsType options c d ns s'))"
proof -
  define tn where "tn = join ''.'' (ns @ [className d])"
  define s1 where "s1 = recordType tn s'"
  define head where "head = (if c then writeExternsConstructor options d s1
               else Returned [] (annEmit (''/** @record @struct */'' @ nl) s1))"
  have s1: "outputRef s1 = ExternsArray" "grows s s1"
    using assms by (simp_all add: s1_def grows_recordType')
  have head: "outputRef (stateOf head) = ExternsArray" "grows s (stateOf head)"
    using s1 by (simp_all add: head_def grows_writeExternsConstructor' grows_annEmit')
  have eq: "writeExternsType options c d ns s' =
      (if tn \<in> set closureExternsBlacklist then Returned () s1
       else andThen head
          (\<lambda>paramNames s2.
             forEach (writeExternsMember options tn ns)
               (members d) (writeExternsFunction (className d) paramNames ns s2)))"
    by (simp only: writeExternsType_eq tn_def s1_def head_def)
  show ?thesis
  proof (cases head)
    case (Returned names s2)
    with head have s2: "outputRef s2 = ExternsArray" "grows s s2" by simp_all
    have "grows s (stateOf (forEach (writeExternsMember options tn ns) (members d)
                 (writeExternsFunction (className d) names ns s2)))"
      using s2
      by (intro grows_forEach' grows_writeExternsMember' grows_writeExternsFunction') simp_all
    with Returned show ?thesis
      by (simp add: eq s1)
  next
    case (Threw e s2)
    with head show ?thesis
      by (simp add: eq s1)
  qed
qed

text \<open>The same for \<open>visitExterns\<close>, whatever \<open>this.output\<close> refers to on entry.\<close>

lemma visitExternsStatements_frame:
  assumes "\<And>n ns t. n \<in> set nodes \<Longrightarrow> outputRef t = ExternsArray \<Longrightarrow>
             grows t (stateOf (visitExterns options n ns t))
             \<and> outputRef (stateOf (visitExterns options n ns t)) = ExternsArray"
    and "outputRef s = ExternsArray"
  shows "grows s (stateOf (visitExternsStatements options nodes ns s))
         \<and> outputRef (stateOf (visitExternsStatements options nodes ns s)) = ExternsArray"
  using assms
proof (induction nodes arbitrary: s)
  case Nil
  then show ?case by simp
next
  case (Cons n nodes)
  have step: "grows s (stateOf (visitExterns options n ns s))"
             "outputRef (stateOf (visitExterns options n ns s)) = ExternsArray"
    using Cons.prems by simp_all
  show ?case
  proof (cases "visitExterns options n ns s")
    case (Returned u s')
    with step have s': "grows s s'" "outputRef s' = ExternsArray" by simp_all
    have "grows s' (stateOf (visitExternsStatements options nodes ns s'))
         \<and> outputRef (stateOf (visitExternsStatements options nodes ns s')) = ExternsArray"
      using Cons.prems(1) s'(2) by (intro Cons.IH) simp_all
    with s' Returned show ?thesis
      using grows_trans by auto
  next
    case (Threw e s')
    with step show ?thesis by simp
  qed
qed

lemma restoreOutput_frame:
  assumes "grows t (stateOf r)" and "outputRef (stateOf r) = ExternsArray"
  shows "grows t (stateOf (restoreOutput orig r))
         \<and> (\<forall>e s'. restoreOutput orig r = Threw e s' \<longrightarrow> outputRef s' = ExternsArray)"
  using assms by (cases r) (auto simp add: restoreOutput_def)

lemma visitExterns_frame:
  "grows s (stateOf (visitExterns options node ns s))
   \<and> (\<forall>e s'. visitExterns options node ns s = Threw e s' \<longrightarrow> outputRef s' = ExternsArray)"
proof (induction node arbitrary: ns s)
  case (ModuleDeclaration info name body)
  show ?case
  proof (cases name)
    case (ModuleIdentifier n)
    define s1 where "s1 = s\<lparr>outputRef := ExternsArray\<rparr>"
    define path where "path = join ''.'' (ns @ [n])"
    show ?thesis
    proof (cases "hasOwnProperty (emittedNamespaces s) path")
      case (Inl e)
      with ModuleIdentifier show ?thesis
        by (simp add: path_def restoreOutput_def)
    next
      case (Inr emitted)
      define s2 where "s2 = (if \<not> emitted then emitNamespaceSkeleton (ns @ [n]) s1 else s1)
               \<lparr>emittedNamespaces := obj_set (emittedNamespaces s) path True\<rparr>"
      have g2: "grows s s2"
        using ownKeys_obj_set_mono[of "emittedNamespaces s" path True]
        by (auto simp add: s2_def s1_def grows_def emitNamespaceSkeleton_def Let_def annEmit_def)
      have eq: "visitExterns options (ModuleDeclaration info name body) ns s =
          restoreOutput (outputRef s) (visitExterns options body (ns @ [n]) s2)"
        using ModuleIdentifier Inr by (simp add: path_def s2_def s1_def)
      have ih: "grows s2 (stateOf (visitExterns options body (ns @ [n]) s2))"
        "\<forall>e s'. visitExterns options body (ns @ [n]) s2 = Threw e s' \<longrightarrow> outputRef s' = ExternsArray"
        using ModuleDeclaration.IH by simp_all
      show ?thesis
        using g2 ih grows_trans
        by (cases "visitExterns options body (ns @ [n]) s2")
           (auto simp add: eq restoreOutput_def)
    qed
  qed (simp_all add: grows_errorUnimplementedKind')
next
  case (ModuleBlock info stmts)
  define s1 where "s1 = s\<lparr>outputRef := ExternsArray\<rparr>"
  have elem: "grows t (stateOf (visitExterns options n ns' t))
             \<and> outputRef (stateOf (visitExterns options n ns' t)) = ExternsArray"
    if "n \<in> set stmts" "outputRef t = ExternsArray" for n ns' t
  proof (cases "visitExterns options n ns' t")
    case (Returned u t')
    with visitExterns_Returned_outputRef[OF Returned] that(2) ModuleBlock.IH[OF that(1), where ns = ns' and s = t]
    show ?thesis by simp
  next
    case (Threw e t')
    with ModuleBlock.IH[OF that(1), where ns = ns' and s = t] show ?thesis by simp
  qed
  have "grows s1 (stateOf (visitExternsStatements options stmts ns s1))
         \<and> outputRef (stateOf (visitExternsStatements options stmts ns s1)) = ExternsArray"
    by (rule visitExternsStatements_frame) (simp_all add: elem s1_def)
  then have "grows s1 (stateOf (restoreOutput (outputRef s)
                 (visitExternsStatements options stmts ns s1)))
         \<and> (\<forall>e s'. restoreOutput (outputRef s) (visitExternsStatements options stmts ns s1)
                     = Threw e s' \<longrightarrow> outputRef s' = ExternsArray)"
    using restoreOutput_frame by blast
  then show ?case by (simp add: s1_def)
next
  case (ClassDeclaration info decl)
  define s1 where "s1 = s\<lparr>outputRef := ExternsArray\<rparr>"
  have g: "grows s1 (stateOf (writeExternsType options True decl ns s1))"
    by (rule grows_writeExternsType') (simp_all add: s1_def)
  have o: "outputRef (stateOf (writeExternsType options True decl ns s1)) = ExternsArray"
    by (simp add: s1_def)
  show ?case
    using restoreOutput_frame[OF g o, of "outputRef s"] by (simp add: s1_def)
next
  case (InterfaceDeclaration info decl)
  define s1 where "s1 = s\<lparr>outputRef := ExternsArray\<rparr>"
  have g: "grows s1 (stateOf (writeExternsType options False decl ns s1))"
    by (rule grows_writeExternsType') (simp_all add: s1_def)
  have o: "outputRef (stateOf (writeExternsType options False decl ns s1)) = ExternsArray"
    by (simp add: s1_def)
  show ?case
    using restoreOutput_frame[OF g o, of "outputRef s"] by (simp add: s1_def)
next
  case (FunctionDeclaration info name f)
  define s1 where "s1 = s\<lparr>outputRef := ExternsArray\<rparr>"
  define r where "r = andThen (emitFunctionType options f [] s1)
          (\<lambda>u s'. Returned () (writeExternsFunction name (paramNamesOf f) ns s'))"
  have g0: "grows s1 (stateOf (emitFunctionType options f [] s1))"
    by (rule grows_emitFunctionType') (simp_all add: s1_def)
  have o0: "outputRef (stateOf (emitFunctionType options f [] s1)) = ExternsArray"
    by (simp add: s1_def)
  have "grows s1 (stateOf r) \<and> outputRef (stateOf r) = ExternsArray"
    using g0 o0 unfolding r_def
    by (cases "emitFunctionType options f [] s1") (simp_all add: grows_writeExternsFunction')
  then have "grows s1 (stateOf (restoreOutput (outputRef s) r))
         \<and> (\<forall>e s'. restoreOutput (outputRef s) r = Threw e s' \<longrightarrow> outputRef s' = ExternsArray)"
    using restoreOutput_frame by blast
  then show ?case by (simp add: s1_def r_def)
next
  case (VariableStatementNode info decls)
  have "grows (s\<lparr>outputRef := ExternsArray\<rparr>)
          (fold (\<lambda>decl. writeExternsVariable options decl ns) decls (s\<lparr>outputRef := ExternsArray\<rparr>))"
    by (rule grows_fold') (simp_all add: grows_writeExternsVariable')
  then show ?case by simp
next
  case (EnumDeclaration info decl)
  have "grows (s\<lparr>outputRef := ExternsArray\<rparr>) (writeExternsEnum decl ns (s\<lparr>outputRef := ExternsArray\<rparr>))"
    by (rule grows_writeExternsEnum') simp_all
  then show ?case by simp
next
  case (OtherNode info kindName)
  have "grows (s\<lparr>outputRef := ExternsArray\<rparr>)
          (annEmit (nl @ ''/* TODO: '' @ kindName @ '' in '' @ join ''.'' ns @ '' */'' @ nl)
             (s\<lparr>outputRef := ExternsArray\<rparr>))"
    by (rule grows_annEmit) simp
  then show ?case by simp
qed

lemma mainOutput_visitExterns:
  "mainOutput (stateOf (visitExterns options node ns s)) = mainOutput s"
  using visitExterns_frame[of s options node ns] by (simp add: grows_def)

lemma visitExterns_Threw_outputRef:
  "visitExterns options node ns s = Threw e s' \<Longrightarrow> outputRef s' = ExternsArray"
  using visitExterns_frame[of s options node ns] by simp

lemma ownKeys_visitExterns:
  "ownKeys (emittedNamespaces s)
     \<subseteq> ownKeys (emittedNamespaces (stateOf (visitExterns options node ns s)))"
  using visitExterns_frame[of s options node ns] by (simp add: grows_def)

subsection \<open>The dictionary of enum members\<close>

lemma externsOutput_annEmit:
  "externsOutput (annEmit t s) =
     (if outputRef s = ExternsArray then externsOutput s @ [t] else externsOutput s)"
  by (simp add: annEmit_def split: arrayRef.splits)

lemma mainOutput_annEmit:
  "mainOutput (annEmit t s) = (if outputRef s = MainArray then mainOutput s @ [t] else mainOutput s)"
  by (simp add: annEmit_def split: arrayRef.splits)

lemma store_fresh: "k \<notin> fst ` set obj \<Longrightarrow> store obj k v = obj @ [(k, v)]"
  by (induction obj) auto

lemma obj_set_fresh:
  "k \<noteq> ''__proto__'' \<Longrightarrow> k \<notin> fst ` set obj \<Longrightarrow> obj_set obj k v = obj @ [(k, v)]"
  by (simp add: obj_set_def store_fresh)

lemma map_fst_memberValues: "map fst (memberValues ops i ms) = map enumMemberName ms"
  by (induction ms arbitrary: i) (auto split: enumInitializer.splits)

lemma gatherMembers_distinct:
  "distinct (map enumMemberName ms) \<Longrightarrow> set (map enumMemberName ms) \<inter> fst ` set acc = {}
     \<Longrightarrow> ''__proto__'' \<notin> set (map enumMemberName ms)
     \<Longrightarrow> gatherMembers ops ms acc i = acc @ memberValues ops i ms"
proof (induction ms arbitrary: acc i)
  case Nil
  then show ?case by simp
next
  case (Cons m ms)
  have fresh: "enumMemberName m \<notin> fst ` set acc" "enumMemberName m \<noteq> ''__proto__''"
    using Cons.prems(2,3) by auto
  have rest: "set (map enumMemberName ms) \<inter> fst ` set (acc @ [(enumMemberName m, v)]) = {}" for v
    using Cons.prems by auto
  have proto: "''__proto__'' \<notin> set (map enumMemberName ms)"
    using Cons.prems(3) by simp
  show ?case
    using Cons.prems(1) fresh rest proto
    by (cases "initializer m") (simp_all add: obj_set_fresh Cons.IH)
qed

lemma annEmits_append: "annEmits (xs @ ys) s = annEmits ys (annEmits xs s)"
  by (simp add: annEmits_def)

lemma obj_get_distinct:
  "distinct (map fst obj) \<Longrightarrow> (k, v) \<in> set obj \<Longrightarrow> obj_get obj k = Some v"
  by (simp add: obj_get_def)

lemma emitEnumAssignment_chunks:
  "obj_get mems mem = Some v \<Longrightarrow>
     emitEnumAssignment ops options name mems mem s =
       annEmits (assignmentChunks ops options name (mem, v)) s"
  by (cases v) (simp_all add: emitEnumAssignment_def Let_def annEmits_def)

lemma fold_emitEnumAssignment:
  assumes "distinct (map fst mems)" and "set kvs \<subseteq> set mems"
  shows "fold (emitEnumAssignment ops options name mems) (map fst kvs) s =
           annEmits (concat (map (assignmentChunks ops options name) kvs)) s"
  using assms(2)
proof (induction kvs arbitrary: s)
  case Nil
  then show ?case by (simp add: annEmits_def)
next
  case (Cons kv kvs)
  obtain k v where kv: "kv = (k, v)" by (cases kv)
  with Cons.prems have "obj_get mems k = Some v"
    using assms(1) by (intro obj_get_distinct) auto
  then show ?case
    using Cons by (simp add: kv emitEnumAssignment_chunks annEmits_append del: assignmentChunks.simps)
qed

lemma fold_emitEnumReverse:
  "fold (emitEnumReverse name) ks s = annEmits (map (reverseLookupChunk name) ks) s"
  by (induction ks arbitrary: s)
     (simp_all add: annEmits_def emitEnumReverse_def reverseLookupChunk_def)

lemma object_keys_no_index:
  "\<forall>k\<in>fst ` set obj. \<not> is_array_index k \<Longrightarrow> object_keys obj = map fst obj"
proof -
  assume a: "\<forall>k\<in>fst ` set obj. \<not> is_array_index k"
  then have "filter is_array_index (map fst obj) = []"
    by (auto simp add: filter_empty_conv)
  moreover from a have "filter (\<lambda>k. \<not> is_array_index k) (map fst obj) = map fst obj"
    by (auto simp add: filter_id_conv)
  ultimately show ?thesis by (simp add: object_keys_def)
qed

text \<open>
  For an enum declaration that is not constant, whose member names are distinct, none of
  them an array-index string and none \<open>__proto__\<close>, the dictionary of member values is the
  walk over the members in declaration order, the counter starting at 0, and the pass
  emits the header, one assignment per member with that value, and then one
  reverse-lookup assignment per member, in declaration order.
\<close>

lemma maybeProcessEnum_walks_members:
  assumes "Const \<notin> flags info"
    and "distinct (map enumMemberName (enumMembers decl))"
    and "\<forall>m\<in>set (enumMembers decl). \<not> is_array_index (enumMemberName m)"
    and "''__proto__'' \<notin> set (map enumMemberName (enumMembers decl))"
  shows "gatherMembers ops (enumMembers decl) [] (numZero ops)
           = memberValues ops (numZero ops) (enumMembers decl)
       \<and> maybeProcessEnum ops options info decl s =
           (True,
            annEmits
              ([nl]
               @ (if Export \<in> flags info then [''export ''] else [])
               @ [''type '' @ enumName decl @ '' = number;'' @ nl]
               @ (if Export \<in> flags info then [''export ''] else [])
               @ [''let '' @ enumName decl @ '': any = {};'' @ nl]
               @ concat (map (assignmentChunks ops options (enumName decl))
                           (memberValues ops (numZero ops) (enumMembers decl)))
               @ map (reverseLookupChunk (enumName decl))
                   (map enumMemberName (enumMembers decl)))
              s)"
proof -
  let ?ms = "enumMembers decl"
  let ?vals = "memberValues ops (numZero ops) ?ms"
  have g: "gatherMembers ops ?ms [] (numZero ops) = ?vals"
    using assms(2,4) by (simp add: gatherMembers_distinct)
  have d: "distinct (map fst ?vals)"
    using assms(2) by (simp add: map_fst_memberValues)
  have "fst ` set ?vals = enumMemberName ` set ?ms"
    using map_fst_memberValues[of ops "numZero ops" ?ms] by (metis set_map)
  then have "\<forall>k\<in>fst ` set ?vals. \<not> is_array_index k"
    using assms(3) by auto
  then have "object_keys ?vals = map fst ?vals"
    by (rule object_keys_no_index)
  then have keys: "object_keys ?vals = map enumMemberName ?ms"
    by (simp only: map_fst_memberValues)
  have "fold (emitEnumAssignment ops options (enumName decl) ?vals) (map fst ?vals) s' =
           annEmits (concat (map (assignmentChunks ops options (enumName decl)) ?vals)) s'"
    for s'
    using d by (rule fold_emitEnumAssignment) simp
  then have a: "fold (emitEnumAssignment ops options (enumName decl) ?vals)
             (map enumMemberName ?ms) s' =
           fold annEmit (concat (map (assignmentChunks ops options (enumName decl)) ?vals)) s'"
    for s'
    by (simp only: map_fst_memberValues annEmits_def)
  have r: "fold (emitEnumReverse (enumName decl)) ks s' =
           fold annEmit (map (reverseLookupChunk (enumName decl)) ks) s'" for ks s'
    by (simp only: fold_emitEnumReverse annEmits_def)
  have "maybeProcessEnum ops options info decl s =
      (True,
       fold annEmit (map (reverseLookupChunk (enumName decl)) (map enumMemberName ?ms))
        (fold annEmit (concat (map (assignmentChunks ops options (enumName decl)) ?vals))
          (annEmit (''let '' @ enumName decl @ '': any = {};'' @ nl)
            ((if Export \<in> flags info then annEmit ''export '' else id)
              (annEmit (''type '' @ enumName decl @ '' = number;'' @ nl)
                ((if Export \<in> flags info then annEmit ''export '' else id)
                  (annEmit nl s)))))))"
    using assms(1) by (simp only: maybeProcessEnum_def Let_def g keys a r if_False id_apply split: if_splits) simp
  then show ?thesis
    by (simp add: g annEmits_def del: assignmentChunks.simps)
qed

lemmas annotator_defs = maybeProcess_def maybeProcessEnum_def emitEnumAssignment_def
  emitEnumReverse_def writeNodeRange_def annEmit_def annEmits_def annError_def
  errorUnimplementedKind_def newAnnotator_def emitInterface_def visitProperty_def
  emitJSDocType_def emitFunctionType_def getJSDoc_def typeToClosure_def tagChunks_def
  paramTag_def writeExternsFunction_def writeExternsVariable_def writeExternsEnum_def
  writeExternsEnumMember_def writeExternsType_def writeExternsMember_def
  writeExternsConstructor_def paramNamesOf_def restoreOutput_def emitNamespaceSkeleton_def
  restWithoutTypeArguments_def
  closureExternsBlacklist_def annotateResult_def emptyTag_def getStart_def Let_def
  object_keys_def obj_get_def obj_set_def hasOwnProperty_def ownKeys_def
  is_array_index_def is_digit_def safeNaturals_def
  nat_toString.simps reverseLookupChunk_def

lemmas annotator_examples = ambientInfo_def plainInfo_def enumABC_def enumE_def enumProto_def
  constructorMember_def classTwoConstructors_def interfaceI_def

section \<open>Claims about the module-rewrite pass\<close>

lemmas example_defs = exampleResolver_def stmtOther_def stmtUseStrict_def stmtVar_def stmtExport_def
  stmtBare_def bareRequire_def
  varRequire_def exportRequire_def
lemmas pass_defs = process_def visitStatements_def visitTopLevel_def rewriteOrVisit_def
  emitRewrittenRequires_def
  rewriteRequire_def visit_def newPostProcessor_def emit_def writeText_def Let_def
  hasOwnProperty_def ownKeys_def obj_set_def obj_get_def object_keys_def

text \<open>
  Claim C5, as amended. The pass strips the first top-level statement that is the string
  literal \<open>use strict\<close>, at whatever position it stands (after any statements \<open>pre\<close> that are
  not such a statement): only its leading trivia is written and the flag is set. Every
  later \<open>use strict\<close> statement is copied unchanged by the generic traversal. A statement
  is recognised exactly when it is an expression statement whose expression is the string
  literal with the text \<open>use strict\<close>.
\<close>

theorem use_strict_stripped_at_first_occurrence:
  assumes "\<not> strippedStrict s" and "\<forall>n\<in>set pre. \<not> isUseStrict n"
    and "isUseStrict u" and "isUseStrict w"
  shows "let s1 = stateOf (visitStatements p f pre s);
             s2 = (writeText (leadingTrivia u) s1)\<lparr>strippedStrict := True\<rparr>;
             s3 = stateOf (visitStatements p f mid s2)
         in visitTopLevel p f u s1 = Returned () s2
            \<and> visitTopLevel p f w s3 = visit w s3
            \<and> isUseStrict w = (kind w = ExpressionStatement (StringLiteral ''use strict''))"
proof -
  define s1 where "s1 = stateOf (visitStatements p f pre s)"
  define s2 where "s2 = (writeText (leadingTrivia u) s1)\<lparr>strippedStrict := True\<rparr>"
  define s3 where "s3 = stateOf (visitStatements p f mid s2)"
  have 3: "isUseStrict w = (kind w = ExpressionStatement (StringLiteral ''use strict''))"
    by (auto split: statementKind.splits expression.splits)
  have "\<not> strippedStrict s1"
    unfolding s1_def using assms(1,2) by (rule not_strippedStrict_visitStatements)
  then have 1: "visitTopLevel p f u s1 = Returned () s2"
    by (simp add: visitTopLevel_use_strict[OF assms(3)] s2_def)
  have "strippedStrict s2" by (simp add: s2_def)
  then have "strippedStrict s3"
    unfolding s3_def by (rule strippedStrict_visitStatements)
  then have 2: "visitTopLevel p f w s3 = visit w s3"
    by (simp add: visitTopLevel_use_strict[OF assms(4)])
  show ?thesis
    using 1 2 3 unfolding Let_def s1_def s2_def s3_def by blast
qed

theorem use_strict_stripped_at_first_occurrence_witness:
  "let s1 = stateOf (visitStatements exampleResolver ''m'' [stmtOther] newPostProcessor);
       s2 = (writeText (leadingTrivia stmtUseStrict) s1)\<lparr>strippedStrict := True\<rparr>;
       s3 = stateOf (visitStatements exampleResolver ''m'' [stmtOther] s2)
   in visitTopLevel exampleResolver ''m'' stmtUseStrict s1 = Returned () s2
      \<and> visitTopLevel exampleResolver ''m'' stmtUseStrict s3 = visit stmtUseStrict s3
      \<and> isUseStrict stmtUseStrict =
          (kind stmtUseStrict = ExpressionStatement (StringLiteral ''use strict''))"
  by (rule use_strict_stripped_at_first_occurrence)
     (simp_all add: example_defs newPostProcessor_def)

text \<open>
  Claim C5 as stated fails: a \<open>use strict\<close> statement that is the second top-level statement
  is stripped.
\<close>

theorem use_strict_stripped_when_second:
  "isUseStrict stmtUseStrict
   \<and> map_option resultOutput (returnedValue (process exampleResolver
        \<lparr>fileName = ''m'', statements = [stmtOther, stmtUseStrict], endOfFileText = []\<rparr>))
     = Some (''goog.module('' @ [CHR 0x27] @ ''m'' @ [CHR 0x27] @ '');f();'')"
  by (simp add: example_defs pass_defs)

text \<open>
  Claim C4 fails on the code. In the file
  \<open>var A = require("m"); __export(require("m")); var B = require("m");\<close> the
  \<open>__export\<close> statement overwrites the entry of \<open>m\<close> in \<open>moduleVariables\<close> with the
  placeholder \<open>*\<close>, and the second variable is emitted as \<open>var B = *;\<close>, which is not an
  alias of \<open>A\<close> (and not JavaScript).
\<close>

theorem second_require_after_export_binds_star:
  "returnedValue (process exampleResolver
     \<lparr>fileName = ''f'',
      statements = [stmtVar ''A'' ''m'', stmtExport ''m'', stmtVar ''B'' ''m''],
      endOfFileText = []\<rparr>)
   = Some \<lparr>resultOutput =
        ''goog.module('' @ [CHR 0x27] @ ''f'' @ [CHR 0x27] @ '');''
        @ ''var A = goog.require('' @ [CHR 0x27] @ ''m'' @ [CHR 0x27] @ '');''
        @ ''__export(goog.require('' @ [CHR 0x27] @ ''m'' @ [CHR 0x27] @ ''));''
        @ ''var B = *;'',
      referencedModules = [''m'']\<rparr>"
  by (simp add: example_defs pass_defs is_array_index_def is_digit_def)

text \<open>
  Where no \<open>__export\<close> stands between them and the module identifier is an ordinary key,
  the second of two \<open>require\<close> statements is an alias of the first and the module is listed
  once.
\<close>

lemma repeated_require_example:
  "returnedValue (process exampleResolver
     \<lparr>fileName = ''f'',
      statements = [stmtOther, stmtVar ''A'' ''m'', stmtOther, stmtVar ''B'' ''m''],
      endOfFileText = []\<rparr>)
   = Some \<lparr>resultOutput =
        ''goog.module('' @ [CHR 0x27] @ ''f'' @ [CHR 0x27] @ '');f();''
        @ ''var A = goog.require('' @ [CHR 0x27] @ ''m'' @ [CHR 0x27] @ '');f();''
        @ ''var B = A;'',
      referencedModules = [''m'']\<rparr>"
  by (simp add: example_defs pass_defs is_array_index_def is_digit_def)

text \<open>
  Two more files on which the dictionary \<open>moduleVariables\<close> misses what claim C4 says. The
  assignment \<open>this.moduleVariables['__proto__'] = varName\<close> creates no own property, so a
  module with that identifier is required twice and is not listed; and once the key
  \<open>hasOwnProperty\<close> is stored, the next test \<open>this.moduleVariables.hasOwnProperty(modName)\<close>
  raises a \<open>TypeError\<close>.
\<close>

lemma repeated_require_of_proto_module:
  "returnedValue (process exampleResolver
     \<lparr>fileName = ''f'',
      statements = [stmtVar ''A'' ''__proto__'', stmtVar ''B'' ''__proto__''],
      endOfFileText = []\<rparr>)
   = Some \<lparr>resultOutput =
        ''goog.module('' @ [CHR 0x27] @ ''f'' @ [CHR 0x27] @ '');''
        @ ''var A = goog.require('' @ [CHR 0x27] @ ''__proto__'' @ [CHR 0x27] @ '');''
        @ ''var B = goog.require('' @ [CHR 0x27] @ ''__proto__'' @ [CHR 0x27] @ '');'',
      referencedModules = []\<rparr>"
  by (simp add: example_defs pass_defs is_array_index_def is_digit_def)

lemma require_after_hasOwnProperty_module_raises:
  "returnedValue (process exampleResolver
     \<lparr>fileName = ''f'',
      statements = [stmtVar ''A'' ''hasOwnProperty'', stmtVar ''B'' ''m''],
      endOfFileText = []\<rparr>)
   = None"
  by (simp add: example_defs pass_defs)

text \<open>
  Claim C9 fails on the code for the module identifier \<open>__proto__\<close>. The assignment
  \<open>this.moduleVariables[modName] = '*'\<close> of the \<open>__export\<close> branch creates no own property
  on the plain object, so nothing is recorded: a later \<open>var X = require("__proto__")\<close> is
  rewritten to a fresh \<open>goog.require\<close>, not to \<open>var X = *;\<close>, and \<open>referencedModules\<close> is
  empty.
\<close>

theorem export_of_proto_module_is_not_recorded:
  "moduleVariables (stateOf (visitTopLevel exampleResolver ''f'' (stmtExport ''__proto__'')
      newPostProcessor)) = []
   \<and> returnedValue (process exampleResolver
       \<lparr>fileName = ''f'',
        statements = [stmtExport ''__proto__'', stmtVar ''X'' ''__proto__''],
        endOfFileText = []\<rparr>)
     = Some \<lparr>resultOutput =
          ''goog.module('' @ [CHR 0x27] @ ''f'' @ [CHR 0x27] @ '');''
          @ ''__export(goog.require('' @ [CHR 0x27] @ ''__proto__'' @ [CHR 0x27] @ ''));''
          @ ''var X = goog.require('' @ [CHR 0x27] @ ''__proto__'' @ [CHR 0x27] @ '');'',
        referencedModules = []\<rparr>"
  by (simp add: example_defs pass_defs is_array_index_def is_digit_def)

text \<open>For an ordinary module identifier the placeholder is recorded and used.\<close>

lemma export_require_example:
  "obj_get (moduleVariables (stateOf (visitTopLevel exampleResolver ''f'' (stmtExport ''m'')
      newPostProcessor))) ''m'' = Some ''*''
   \<and> returnedValue (process exampleResolver
       \<lparr>fileName = ''f'',
        statements = [stmtExport ''m'', stmtOther, stmtVar ''X'' ''m''],
        endOfFileText = []\<rparr>)
     = Some \<lparr>resultOutput =
          ''goog.module('' @ [CHR 0x27] @ ''f'' @ [CHR 0x27] @ '');''
          @ ''__export(goog.require('' @ [CHR 0x27] @ ''m'' @ [CHR 0x27] @ ''));f();''
          @ ''var X = *;'',
        referencedModules = [''m'']\<rparr>"
  by (simp add: example_defs pass_defs is_array_index_def is_digit_def)

section \<open>Claims about the annotation pass\<close>

text \<open>
  Claim C1 fails on the code for an enum with a member named \<open>__proto__\<close>. The values are
  gathered in a plain object, and the assignment \<open>members['__proto__'] = i\<close> creates no own
  property: for \<open>enum E {__proto__, A}\<close> the counter is incremented, but \<open>Object.keys\<close> lists
  only \<open>A\<close>, so the pass emits \<open>E.A = 1;\<close> and \<open>E[E.A] = "A";\<close> and neither line for the
  member \<open>__proto__\<close>.
\<close>

theorem enum_member_proto_is_dropped:
  "maybeProcessEnum safeNaturals \<lparr>untyped = False\<rparr> (plainInfo ''enum E {__proto__, A}'')
     enumProto newAnnotator =
     (True,
      newAnnotator
      \<lparr>mainOutput :=
         [nl, ''type E = number;'' @ nl, ''let E: any = {};'' @ nl,
          ''/** @type {number} */'' @ nl, ''E.A = '', ''1'', '';'' @ nl,
          ''E[E.A] = '' @ [CHR 0x22] @ ''A'' @ [CHR 0x22] @ '';'' @ nl]\<rparr>)"
  by (simp add: annotator_defs annotator_examples)

text \<open>
  The enum with the members \<open>A, B = 5, C\<close>: the values are 0, 5 and 6, one assignment and
  one reverse-lookup line per member.
\<close>

lemma enum_values_example:
  "maybeProcessEnum safeNaturals \<lparr>untyped = False\<rparr> (plainInfo ''enum E {A, B = 5, C}'')
     (enumABC 5) newAnnotator =
     (True,
      newAnnotator
      \<lparr>mainOutput :=
         [nl, ''type E = number;'' @ nl, ''let E: any = {};'' @ nl,
          ''/** @type {number} */'' @ nl, ''E.A = '', ''0'', '';'' @ nl,
          ''/** @type {number} */'' @ nl, ''E.B = '', ''5'', '';'' @ nl,
          ''/** @type {number} */'' @ nl, ''E.C = '', ''6'', '';'' @ nl,
          ''E[E.A] = '' @ [CHR 0x22] @ ''A'' @ [CHR 0x22] @ '';'' @ nl,
          ''E[E.B] = '' @ [CHR 0x22] @ ''B'' @ [CHR 0x22] @ '';'' @ nl,
          ''E[E.C] = '' @ [CHR 0x22] @ ''C'' @ [CHR 0x22] @ '';'' @ nl]\<rparr>)"
  using maybeProcessEnum_walks_members[of "plainInfo ''enum E {A, B = 5, C}''" "enumABC 5"
      safeNaturals "\<lparr>untyped = False\<rparr>" newAnnotator]
  by (simp add: annotator_defs annotator_examples)

text \<open>
  Claim C2 fails on the code: with \<open>untyped\<close> set, the externs of an ambient enum still
  carry the type \<open>number\<close> in \<open>/** @const {number} */\<close>, which \<open>writeExternsEnum\<close> emits
  whatever the options are.
\<close>

theorem untyped_ambient_enum_number:
  "maybeProcess safeNaturals \<lparr>untyped = True\<rparr>
     (EnumDeclaration (ambientInfo ''declare enum E {A}'') enumE) newAnnotator
   = Some (Returned True
       \<lparr>mainOutput = [''declare enum E {A}''],
        externsOutput =
          [nl @ ''/** @const */'' @ nl, ''E = {};'' @ nl,
           ''/** @const {number} */'' @ nl, ''E.A;'' @ nl],
        outputRef = MainArray,
        diagnostics = [],
        emittedNamespaces = []\<rparr>)"
  by (simp add: annotator_defs annotator_examples)

text \<open>
  Claim C10, as amended. With \<open>untyped\<close> set, \<open>maybeProcess\<close> on an interface declaration
  that is not ambient returns having done one thing: it has written the interface's own
  text to the current output. Entered with the main output as sink, the main output gains
  the text of the interface and nothing before it, and the externs are as they were (no
  record skeleton, no member declarations).
\<close>

theorem untyped_interface_verbatim:
  assumes "untyped options" and "Ambient \<notin> flags info"
  shows "maybeProcess ops options (InterfaceDeclaration info iface) s =
           Some (Returned True (writeNodeRange info s))
         \<and> (outputRef s = MainArray \<longrightarrow>
              mainOutput (writeNodeRange info s) =
                mainOutput s @ (if fullText info = [] then [] else [fullText info])
              \<and> externsOutput (writeNodeRange info s) = externsOutput s)"
  using assms
  by (simp add: maybeProcess_def emitInterface_def writeNodeRange_def mainOutput_annEmit
      externsOutput_annEmit)

theorem untyped_interface_verbatim_witness:
  "maybeProcess safeNaturals \<lparr>untyped = True\<rparr>
     (InterfaceDeclaration (plainInfo ''interface I {x: number;}'') interfaceI) newAnnotator
   = Some (Returned True (newAnnotator\<lparr>mainOutput := [''interface I {x: number;}'']\<rparr>))"
  using untyped_interface_verbatim[of "\<lparr>untyped = True\<rparr>"
      "plainInfo ''interface I {x: number;}''" safeNaturals interfaceI newAnnotator]
  by (simp add: annotator_defs annotator_examples)

text \<open>
  Claim C10 as stated fails for an ambient interface: with \<open>untyped\<close> set, the externs
  receive the record skeleton function and the prototype declaration of each member.
\<close>

theorem untyped_ambient_interface_record_skeleton:
  "maybeProcess safeNaturals \<lparr>untyped = True\<rparr>
     (InterfaceDeclaration (ambientInfo ''declare interface I {x: number;}'') interfaceI)
     newAnnotator
   = Some (Returned True
       \<lparr>mainOutput = [''declare interface I {x: number;}''],
        externsOutput =
          [''/** @record @struct */'' @ nl, ''function I() {}'' @ nl,
           '' /**'', '' @type {?} */'', nl @ ''I.prototype.x;'' @ nl],
        outputRef = MainArray,
        diagnostics = [],
        emittedNamespaces = [(''I'', True)]\<rparr>)"
  by (simp add: annotator_defs annotator_examples)

section \<open>Claims about the documentation-comment parser\<close>




end
